theory Spec2Isabelle
  imports Complex_Main "HOL-Library.Log_Nat"
begin

section \<open>Strings\<close>

text \<open>
  A JavaScript string is modelled as a list of code units below 256 (the Latin-1 range);
  every character that the regular expressions of \<^verbatim>\<open>graph.js\<close> look at is ASCII.
\<close>

definition is_digit :: "char \<Rightarrow> bool" where
  \<comment> \<open>the regex class \<^verbatim>\<open>\d\<close>\<close>
  "is_digit c = (48 \<le> (of_char c :: nat) \<and> (of_char c :: nat) \<le> 57)"

definition is_lower :: "char \<Rightarrow> bool" where
  \<comment> \<open>the regex class \<^verbatim>\<open>[a-z]\<close>\<close>
  "is_lower c = (97 \<le> (of_char c :: nat) \<and> (of_char c :: nat) \<le> 122)"

definition is_upper :: "char \<Rightarrow> bool" where
  "is_upper c = (65 \<le> (of_char c :: nat) \<and> (of_char c :: nat) \<le> 90)"

definition is_word :: "char \<Rightarrow> bool" where
  \<comment> \<open>the regex class \<^verbatim>\<open>\w\<close>, that is \<^verbatim>\<open>[A-Za-z0-9_]\<close>\<close>
  "is_word c = (is_digit c \<or> is_lower c \<or> is_upper c \<or> c = CHR ''_'')"

definition is_space :: "char \<Rightarrow> bool" where
  \<comment> \<open>white space and line terminators removed by \<^verbatim>\<open>String.prototype.trim\<close>:
      TAB, LF, VT, FF, CR, SP and NBSP\<close>
  "is_space c = ((of_char c :: nat) \<in> {9, 10, 11, 12, 13, 32, 160})"

definition trim :: "string \<Rightarrow> string" where
  "trim s = rev (dropWhile is_space (rev (dropWhile is_space s)))"

definition lower_char :: "char \<Rightarrow> char" where
  \<comment> \<open>\<^verbatim>\<open>toLowerCase\<close> on one code unit below 256: A-Z and the accented capitals
      U+00C0-U+00DE (without the multiplication sign U+00D7) move up by 32\<close>
  "lower_char c =
     (let n = (of_char c :: nat)
      in if (65 \<le> n \<and> n \<le> 90) \<or> (192 \<le> n \<and> n \<le> 222 \<and> n \<noteq> 215)
         then char_of (n + 32) else c)"

definition toLowerCase :: "string \<Rightarrow> string" where
  "toLowerCase s = map lower_char s"

fun starts_with :: "'a list \<Rightarrow> 'a list \<Rightarrow> bool" where
  \<comment> \<open>\<^verbatim>\<open>starts_with p s\<close>: the text \<^verbatim>\<open>p\<close> is matched literally at the start of \<^verbatim>\<open>s\<close>\<close>
  "starts_with [] s = True"
| "starts_with (p # ps) [] = False"
| "starts_with (p # ps) (c # cs) = (p = c \<and> starts_with ps cs)"

fun includes_str :: "string \<Rightarrow> string \<Rightarrow> bool" where
  \<comment> \<open>\<^verbatim>\<open>s.includes(p)\<close>\<close>
  "includes_str [] p = (p = [])"
| "includes_str (c # cs) p = (starts_with p (c # cs) \<or> includes_str cs p)"

subsection \<open>Global regular-expression replacement\<close>

text \<open>
  \<^verbatim>\<open>s.replace(/re/g, r)\<close> scans from the left; where the expression matches, the
  replacement is written and the scan resumes after the match, otherwise one character is
  copied. A matcher gets the character before the position (for \<^verbatim>\<open>\b\<close>) and the rest of the
  text, and answers with the replacement and the length of the match (at least one: no
  expression of \<^verbatim>\<open>graph.js\<close> matches the empty text). The counter is the number of
  matched characters still to skip.
\<close>

type_synonym matcher = "char option \<Rightarrow> string \<Rightarrow> (string \<times> nat) option"

fun replace_from :: "matcher \<Rightarrow> char option \<Rightarrow> nat \<Rightarrow> string \<Rightarrow> string" where
  "replace_from m prev k [] = []"
| "replace_from m prev k (c # cs) =
     (if 0 < k then replace_from m (Some c) (k - 1) cs
      else (case m prev (c # cs) of
              Some (rep, n) \<Rightarrow> rep @ replace_from m (Some c) (n - 1) cs
            | None \<Rightarrow> c # replace_from m (Some c) 0 cs))"

definition replace_all :: "matcher \<Rightarrow> string \<Rightarrow> string" where
  "replace_all m s = replace_from m None 0 s"

definition word_opt :: "char option \<Rightarrow> bool" where
  "word_opt c = (case c of None \<Rightarrow> False | Some d \<Rightarrow> is_word d)"

definition boundary :: "char option \<Rightarrow> char option \<Rightarrow> bool" where
  \<comment> \<open>\<^verbatim>\<open>\b\<close> between two neighbours (\<^verbatim>\<open>None\<close> at either end of the text): exactly one of
      them is a word character\<close>
  "boundary a b = (word_opt a \<noteq> word_opt b)"

definition next_char :: "string \<Rightarrow> char option" where
  "next_char s = (case s of [] \<Rightarrow> None | c # _ \<Rightarrow> Some c)"

definition m_caret :: matcher where
  \<comment> \<open>\<^verbatim>\<open>/\^/g\<close>\<close>
  "m_caret prev s = (if starts_with ''^'' s then Some (''**'', 1) else None)"

definition m_constant :: "string \<Rightarrow> string \<Rightarrow> matcher" where
  \<comment> \<open>\<^verbatim>\<open>new RegExp(`\\b${name}\\b`, "g")\<close>, replaced by \<^verbatim>\<open>value.toString()\<close>\<close>
  "m_constant name val prev s =
     (if boundary prev (next_char s) \<and> starts_with name s
         \<and> boundary (Some (last name)) (next_char (drop (length name) s))
      then Some (val, length name) else None)"

definition m_function :: "string \<Rightarrow> string \<Rightarrow> matcher" where
  \<comment> \<open>\<^verbatim>\<open>new RegExp(`\\b${name}\\(`, "g")\<close>\<close>
  "m_function name rep prev s =
     (if boundary prev (next_char s) \<and> starts_with (name @ ''('') s
      then Some (rep, length name + 1) else None)"

definition not_close :: "char \<Rightarrow> bool" where
  \<comment> \<open>the regex class \<^verbatim>\<open>[^)]\<close>\<close>
  "not_close c = (c \<noteq> CHR '')'')"

definition m_reciprocal :: "string \<Rightarrow> string \<Rightarrow> matcher" where
  \<comment> \<open>\<^verbatim>\<open>new RegExp(`\\bcsc\\(([^)]+)\\)`, "g")\<close> with the replacement
      \<^verbatim>\<open>"(1/Math.sin($1))"\<close>: the group is the longest run of characters other than
      \<^verbatim>\<open>)\<close>, it is not empty and a \<^verbatim>\<open>)\<close> follows it\<close>
  "m_reciprocal name head prev s =
     (let rest = drop (length name + 1) s;
          arg = takeWhile not_close rest;
          after = dropWhile not_close rest
      in if boundary prev (next_char s) \<and> starts_with (name @ ''('') s
            \<and> arg \<noteq> [] \<and> after \<noteq> []
         then Some (head @ arg @ ''))'', length name + 1 + length arg + 1) else None)"

definition m_digit_letter :: matcher where
  \<comment> \<open>\<^verbatim>\<open>/(\d)([a-z])/g\<close> to \<^verbatim>\<open>"$1*$2"\<close>\<close>
  "m_digit_letter prev s =
     (case s of d # l # _ \<Rightarrow> (if is_digit d \<and> is_lower l then Some ([d] @ ''*'' @ [l], 2) else None)
      | _ \<Rightarrow> None)"

definition m_close_letter :: matcher where
  \<comment> \<open>\<^verbatim>\<open>/\)([a-z])/g\<close> to \<^verbatim>\<open>")*$1"\<close>\<close>
  "m_close_letter prev s =
     (case s of p # l # _ \<Rightarrow> (if p = CHR '')'' \<and> is_lower l then Some ('')*'' @ [l], 2) else None)
      | _ \<Rightarrow> None)"

definition m_digit_open :: matcher where
  \<comment> \<open>\<^verbatim>\<open>/(\d)\(/g\<close> to \<^verbatim>\<open>"$1*("\<close>\<close>
  "m_digit_open prev s =
     (case s of d # p # _ \<Rightarrow> (if is_digit d \<and> p = CHR ''('' then Some ([d] @ ''*('', 2) else None)
      | _ \<Rightarrow> None)"

definition m_close_digit :: matcher where
  \<comment> \<open>\<^verbatim>\<open>/\)(\d)/g\<close> to \<^verbatim>\<open>")*$1"\<close>\<close>
  "m_close_digit prev s =
     (case s of p # d # _ \<Rightarrow> (if p = CHR '')'' \<and> is_digit d then Some ('')*'' @ [d], 2) else None)
      | _ \<Rightarrow> None)"

definition m_variable_open :: matcher where
  \<comment> \<open>\<^verbatim>\<open>/\b([a-z])\(/g\<close> to \<^verbatim>\<open>"$1*("\<close>\<close>
  "m_variable_open prev s =
     (case s of l # p # _ \<Rightarrow>
        (if boundary prev (Some l) \<and> is_lower l \<and> p = CHR ''('' then Some ([l] @ ''*('', 2) else None)
      | _ \<Rightarrow> None)"

section \<open>ExpressionParser.parse: rewriting the text\<close>

definition constants :: "(string \<times> string) list" where
  \<comment> \<open>\<^verbatim>\<open>this.constants\<close> in insertion order, each with \<^verbatim>\<open>value.toString()\<close>\<close>
  "constants = [(''pi'', ''3.141592653589793''), (''e'', ''2.718281828459045'')]"

definition function_names :: "string list" where
  \<comment> \<open>the keys of \<^verbatim>\<open>this.functions\<close> in insertion order\<close>
  "function_names = [''sin'', ''cos'', ''tan'', ''csc'', ''sec'', ''cot'', ''log'', ''ln'',
                ''sqrt'', ''abs'', ''floor'', ''ceil'', ''round'', ''exp'']"

definition replace_function :: "string \<Rightarrow> string \<Rightarrow> string" where
  \<comment> \<open>the body of the loop over \<^verbatim>\<open>this.functions\<close>\<close>
  "replace_function expression name =
     (if name = ''log'' then replace_all (m_function name ''Math.log10('') expression
      else if name = ''ln'' then replace_all (m_function name ''Math.log('') expression
      else if name = ''csc'' then replace_all (m_reciprocal ''csc'' ''(1/Math.sin('') expression
      else if name = ''sec'' then replace_all (m_reciprocal ''sec'' ''(1/Math.cos('') expression
      else if name = ''cot'' then replace_all (m_reciprocal ''cot'' ''(1/Math.tan('') expression
      else replace_all (m_function name (''Math.'' @ name @ ''('')) expression)"

definition normalize :: "string \<Rightarrow> string" where
  \<comment> \<open>lines 59-106 of \<^verbatim>\<open>graph.js\<close>\<close>
  "normalize expression =
     (let e1 = toLowerCase expression;
          e2 = replace_all m_caret e1;
          e3 = foldl (\<lambda>e (name, val). replace_all (m_constant name val) e) e2 constants;
          e4 = foldl replace_function e3 function_names;
          e5 = replace_all m_digit_letter e4;
          e6 = replace_all m_close_letter e5;
          e7 = replace_all m_digit_open e6;
          e8 = replace_all m_close_digit e7
      in replace_all m_variable_open e8)"

fun paren_scan :: "int \<Rightarrow> string \<Rightarrow> bool" where
  \<comment> \<open>the loop that validates parentheses: \<^verbatim>\<open>False\<close> where the source throws
      "Mismatched parentheses"\<close>
  "paren_scan openParens [] = (openParens = 0)"
| "paren_scan openParens (c # cs) =
     (let n1 = (if c = CHR ''('' then openParens + 1 else openParens);
          n2 = (if c = CHR '')'' then n1 - 1 else n1)
      in if n2 < 0 then False else paren_scan n2 cs)"

section \<open>Numbers\<close>

text \<open>
  A JavaScript number is an IEEE 754 binary64 value. A finite one is \<^verbatim>\<open>Fin m q\<close>, standing for
  \<open>m * 2 ^ q\<close>, in the form the format stores: \<open>2 ^ 52 \<le> \<bar>m\<bar> < 2 ^ 53\<close> and
  \<open>- 1074 \<le> q \<le> 971\<close> for a normal number, \<open>\<bar>m\<bar> < 2 ^ 52\<close> and \<open>q = - 1074\<close> for a
  subnormal one and for \<open>+0\<close>. \<^verbatim>\<open>NZero\<close> is \<open>-0\<close>.
\<close>

datatype jsnum = NaN | PInf | NInf | NZero | Fin int int

definition scale :: "int \<Rightarrow> int \<Rightarrow> int" where
  \<comment> \<open>\<open>n * 2 ^ k\<close> for \<open>k \<ge> 0\<close>, and \<open>n\<close> itself otherwise\<close>
  "scale n k = (if 0 \<le> k then n * 2 ^ nat k else n)"

definition round_even :: "int \<Rightarrow> int \<Rightarrow> int" where
  \<comment> \<open>the integer nearest to \<open>n / d\<close>, the even one of two that are equally near\<close>
  "round_even n d =
     (let f = n div d; r = n mod d
      in if 2 * r < d then f else if d < 2 * r then f + 1 else if even f then f else f + 1)"

definition flog2 :: "int \<Rightarrow> int \<Rightarrow> int" where
  \<comment> \<open>\<open>\<lfloor>log\<^sub>2 (n / d)\<rfloor>\<close> for positive \<open>n\<close> and \<open>d\<close>\<close>
  "flog2 n d =
     (let k = bitlen n - bitlen d
      in if scale d k \<le> scale n (- k) then k else k - 1)"

definition round_quot :: "bool \<Rightarrow> int \<Rightarrow> int \<Rightarrow> jsnum" where
  \<comment> \<open>round to nearest, ties to even: the number nearest to \<open>n / d\<close> (both positive),
      negated when \<open>neg\<close>; the unit in the last place is \<open>2 ^ q\<close>\<close>
  "round_quot neg n d =
     (let e = flog2 n d
      in if 1023 < e then (if neg then NInf else PInf)
         else
           (let q = max e (- 1022) - 52;
                m = round_even (scale n (- q)) (scale d q)
            in if m = 2 ^ 53
               then (if e = 1023 then (if neg then NInf else PInf)
                     else Fin (if neg then - (2 ^ 52) else 2 ^ 52) (q + 1))
               else if m = 0 then (if neg then NZero else Fin 0 (- 1074))
               else Fin (if neg then - m else m) q))"

definition fl :: "int \<Rightarrow> int \<Rightarrow> jsnum" where
  \<comment> \<open>the number that the exact value \<open>n / d\<close> (\<open>d > 0\<close>) rounds to\<close>
  "fl n d = (if n = 0 then Fin 0 (- 1074) else round_quot (n < 0) \<bar>n\<bar> d)"

definition fl2 :: "int \<Rightarrow> int \<Rightarrow> jsnum" where
  \<comment> \<open>the number that the exact value \<open>n * 2 ^ e\<close> rounds to\<close>
  "fl2 n e = fl (scale n e) (scale 1 (- e))"

definition num :: "int \<Rightarrow> jsnum" where
  \<comment> \<open>an integer literal\<close>
  "num k = fl k 1"

definition dec :: "int \<Rightarrow> nat \<Rightarrow> jsnum" where
  \<comment> \<open>a decimal literal: \<^verbatim>\<open>dec 8 1\<close> is \<^verbatim>\<open>0.8\<close>, \<^verbatim>\<open>dec 1 10\<close> is \<^verbatim>\<open>1e-10\<close>\<close>
  "dec n k = fl n (10 ^ k)"

definition pzero :: jsnum where
  "pzero = Fin 0 (- 1074)"

fun is_neg :: "jsnum \<Rightarrow> bool" where
  \<comment> \<open>the sign bit\<close>
  "is_neg NInf = True"
| "is_neg NZero = True"
| "is_neg (Fin m q) = (m < 0)"
| "is_neg _ = False"

fun is_zero :: "jsnum \<Rightarrow> bool" where
  "is_zero NZero = True"
| "is_zero (Fin m q) = (m = 0)"
| "is_zero _ = False"

fun isFinite :: "jsnum \<Rightarrow> bool" where
  "isFinite NZero = True"
| "isFinite (Fin m q) = True"
| "isFinite _ = False"

fun isNaN :: "jsnum \<Rightarrow> bool" where
  "isNaN NaN = True"
| "isNaN _ = False"

fun mant :: "jsnum \<Rightarrow> int" where
  "mant (Fin m q) = m"
| "mant _ = 0"

fun expo :: "jsnum \<Rightarrow> int" where
  "expo (Fin m q) = q"
| "expo _ = - 1074"

definition signed_zero :: "bool \<Rightarrow> jsnum" where
  "signed_zero neg = (if neg then NZero else pzero)"

definition signed_inf :: "bool \<Rightarrow> jsnum" where
  "signed_inf neg = (if neg then NInf else PInf)"

fun js_neg :: "jsnum \<Rightarrow> jsnum" where
  \<comment> \<open>unary \<^verbatim>\<open>-\<close>\<close>
  "js_neg NaN = NaN"
| "js_neg PInf = NInf"
| "js_neg NInf = PInf"
| "js_neg NZero = pzero"
| "js_neg (Fin m q) = (if m = 0 then NZero else Fin (- m) q)"

definition add_fin :: "jsnum \<Rightarrow> jsnum \<Rightarrow> jsnum" where
  \<comment> \<open>the sum of two finite numbers: the sum of two zeros is \<open>-0\<close> only when both are,
      adding a zero changes nothing, and an exact sum of zero is \<open>+0\<close>\<close>
  "add_fin a b =
     (if is_zero a \<and> is_zero b then (if a = NZero \<and> b = NZero then NZero else pzero)
      else if is_zero b then a
      else if is_zero a then b
      else (let q = min (expo a) (expo b)
            in fl2 (scale (mant a) (expo a - q) + scale (mant b) (expo b - q)) q))"

fun js_add :: "jsnum \<Rightarrow> jsnum \<Rightarrow> jsnum" where
  \<comment> \<open>\<^verbatim>\<open>a + b\<close> on numbers\<close>
  "js_add NaN b = NaN"
| "js_add a NaN = NaN"
| "js_add PInf NInf = NaN"
| "js_add NInf PInf = NaN"
| "js_add PInf b = PInf"
| "js_add NInf b = NInf"
| "js_add a PInf = PInf"
| "js_add a NInf = NInf"
| "js_add a b = add_fin a b"

definition js_sub :: "jsnum \<Rightarrow> jsnum \<Rightarrow> jsnum" where
  \<comment> \<open>\<^verbatim>\<open>a - b\<close>\<close>
  "js_sub a b = js_add a (js_neg b)"

definition js_mul :: "jsnum \<Rightarrow> jsnum \<Rightarrow> jsnum" where
  \<comment> \<open>\<^verbatim>\<open>a * b\<close>\<close>
  "js_mul a b =
     (let neg = (is_neg a \<noteq> is_neg b)
      in if isNaN a \<or> isNaN b then NaN
         else if \<not> isFinite a \<or> \<not> isFinite b
         then (if is_zero a \<or> is_zero b then NaN else signed_inf neg)
         else if is_zero a \<or> is_zero b then signed_zero neg
         else round_quot neg (scale \<bar>mant a * mant b\<bar> (expo a + expo b))
                (scale 1 (- (expo a + expo b))))"

definition js_div :: "jsnum \<Rightarrow> jsnum \<Rightarrow> jsnum" where
  \<comment> \<open>\<^verbatim>\<open>a / b\<close>\<close>
  "js_div a b =
     (let neg = (is_neg a \<noteq> is_neg b)
      in if isNaN a \<or> isNaN b then NaN
         else if \<not> isFinite a then (if isFinite b then signed_inf neg else NaN)
         else if \<not> isFinite b then signed_zero neg
         else if is_zero b then (if is_zero a then NaN else signed_inf neg)
         else if is_zero a then signed_zero neg
         else round_quot neg (scale \<bar>mant a\<bar> (expo a - expo b))
                (scale \<bar>mant b\<bar> (expo b - expo a)))"

definition lt_fin :: "jsnum \<Rightarrow> jsnum \<Rightarrow> bool" where
  "lt_fin a b =
     (let q = min (expo a) (expo b)
      in scale (mant a) (expo a - q) < scale (mant b) (expo b - q))"

fun js_lt :: "jsnum \<Rightarrow> jsnum \<Rightarrow> bool" where
  \<comment> \<open>\<^verbatim>\<open>a < b\<close>: false when either is NaN\<close>
  "js_lt NaN b = False"
| "js_lt a NaN = False"
| "js_lt PInf b = False"
| "js_lt a NInf = False"
| "js_lt NInf b = True"
| "js_lt a PInf = True"
| "js_lt a b = lt_fin a b"

fun js_eq :: "jsnum \<Rightarrow> jsnum \<Rightarrow> bool" where
  \<comment> \<open>\<^verbatim>\<open>a === b\<close> on numbers: NaN equals nothing, \<open>+0\<close> equals \<open>-0\<close>\<close>
  "js_eq NaN b = False"
| "js_eq a NaN = False"
| "js_eq PInf b = (b = PInf)"
| "js_eq NInf b = (b = NInf)"
| "js_eq a PInf = False"
| "js_eq a NInf = False"
| "js_eq a b = (\<not> lt_fin a b \<and> \<not> lt_fin b a)"

definition js_le :: "jsnum \<Rightarrow> jsnum \<Rightarrow> bool" where
  \<comment> \<open>\<^verbatim>\<open>a <= b\<close>\<close>
  "js_le a b = (js_lt a b \<or> js_eq a b)"

definition js_gt :: "jsnum \<Rightarrow> jsnum \<Rightarrow> bool" where
  \<comment> \<open>\<^verbatim>\<open>a > b\<close>\<close>
  "js_gt a b = js_lt b a"

definition js_ge :: "jsnum \<Rightarrow> jsnum \<Rightarrow> bool" where
  \<comment> \<open>\<^verbatim>\<open>a >= b\<close>\<close>
  "js_ge a b = js_le b a"

fun Math_abs :: "jsnum \<Rightarrow> jsnum" where
  "Math_abs NaN = NaN"
| "Math_abs PInf = PInf"
| "Math_abs NInf = PInf"
| "Math_abs NZero = pzero"
| "Math_abs (Fin m q) = Fin \<bar>m\<bar> q"

fun Math_sign :: "jsnum \<Rightarrow> jsnum" where
  "Math_sign NaN = NaN"
| "Math_sign PInf = num 1"
| "Math_sign NInf = num (- 1)"
| "Math_sign NZero = NZero"
| "Math_sign (Fin m q) = (if m = 0 then pzero else if 0 < m then num 1 else num (- 1))"

definition Math_min :: "jsnum \<Rightarrow> jsnum \<Rightarrow> jsnum" where
  \<comment> \<open>\<^verbatim>\<open>Math.min(a, b)\<close>: NaN when either is NaN, and \<open>-0\<close> is below \<open>+0\<close>\<close>
  "Math_min a b =
     (if isNaN a \<or> isNaN b then NaN
      else if js_lt a b then a else if js_lt b a then b
      else if a = NZero then a else b)"

definition Math_max :: "jsnum \<Rightarrow> jsnum \<Rightarrow> jsnum" where
  \<comment> \<open>\<^verbatim>\<open>Math.max(a, b)\<close>\<close>
  "Math_max a b =
     (if isNaN a \<or> isNaN b then NaN
      else if js_lt a b then b else if js_lt b a then a
      else if a = NZero then b else a)"

definition Math_round :: "jsnum \<Rightarrow> jsnum" where
  \<comment> \<open>\<^verbatim>\<open>Math.round(a)\<close>: the nearest integer, the larger of two that are equally near;
      \<open>-0\<close> for \<open>-0\<close> and for \<open>- 0.5 \<le> a < 0\<close>\<close>
  "Math_round a =
     (if \<not> isFinite a \<or> is_zero a \<or> 0 \<le> expo a then a
      else (let r = (2 * mant a + 2 ^ nat (- expo a)) div 2 ^ nat (1 - expo a)
            in if r = 0 then signed_zero (mant a < 0) else num r))"

section \<open>ExpressionParser.parse and ExpressionParser.evaluate\<close>

text \<open>
  What a compiled function returns is a value; the program only asks whether its type is
  \<^verbatim>\<open>"number"\<close>. A call returns or throws. \<^verbatim>\<open>new Function("x", body)\<close> belongs to the
  JavaScript engine, not to \<^verbatim>\<open>graph.js\<close>: \<^verbatim>\<open>parse\<close> takes it as a parameter that answers
  \<^verbatim>\<open>None\<close> where the constructor throws a \<^verbatim>\<open>SyntaxError\<close>.
\<close>

datatype jsval = Number jsnum | Other

datatype outcome = Returns jsval | Throws

type_synonym jsfunc = "jsnum \<Rightarrow> outcome"

type_synonym engine = "string \<Rightarrow> string \<Rightarrow> jsfunc option"

datatype parse_error =
    ExpressionCannotBeEmpty \<comment> \<open>"Invalid expression: Expression cannot be empty"\<close>
  | MismatchedParentheses \<comment> \<open>"Invalid expression: Mismatched parentheses"\<close>
  | NoValidNumericResults
      \<comment> \<open>"Invalid expression: Expression does not produce valid numeric results"\<close>
  | EngineSyntaxError \<comment> \<open>"Invalid expression: " followed by the engine's message\<close>

definition body_prefix :: string where
  "body_prefix = [CHR 0x0A] @ ''                try {'' @ [CHR 0x0A]
                 @ ''                    const result = ''"

definition body_suffix :: string where
  "body_suffix = '';'' @ [CHR 0x0A] @ ''                    return result;'' @ [CHR 0x0A]
                 @ ''                } catch (e) {'' @ [CHR 0x0A]
                 @ ''                    return NaN;'' @ [CHR 0x0A]
                 @ ''                }'' @ [CHR 0x0A] @ ''            ''"

definition function_body :: "string \<Rightarrow> string" where
  \<comment> \<open>the template literal passed to \<^verbatim>\<open>new Function\<close>\<close>
  "function_body expression = body_prefix @ expression @ body_suffix"

definition testValues :: "jsnum list" where
  "testValues = [num 0, num 1, num (- 1), dec 5 1, num 2]"

fun is_number :: "jsval \<Rightarrow> bool" where
  \<comment> \<open>\<^verbatim>\<open>typeof v === "number"\<close>\<close>
  "is_number (Number n) = True"
| "is_number Other = False"

fun to_num :: "jsval \<Rightarrow> jsnum" where
  \<comment> \<open>the number carried by a value of type number; the program applies arithmetic only to
      results of \<^verbatim>\<open>evaluate\<close>, which are numbers\<close>
  "to_num (Number n) = n"
| "to_num Other = NaN"

fun hasValidResult :: "jsfunc \<Rightarrow> jsnum list \<Rightarrow> bool" where
  \<comment> \<open>the loop over \<^verbatim>\<open>testValues\<close>: a throwing call is skipped, the first finite number
      ends the loop\<close>
  "hasValidResult func [] = False"
| "hasValidResult func (testX # rest) =
     (case func testX of
        Throws \<Rightarrow> hasValidResult func rest
      | Returns testResult \<Rightarrow>
          (if is_number testResult \<and> isFinite (to_num testResult) then True
           else hasValidResult func rest))"

definition parse :: "engine \<Rightarrow> string \<Rightarrow> parse_error + jsfunc" where
  "parse new_Function expression =
     (if expression = [] \<or> trim expression = [] then Inl ExpressionCannotBeEmpty
      else (let e = normalize expression
            in if \<not> paren_scan 0 e then Inl MismatchedParentheses
               else (case new_Function ''x'' (function_body e) of
                       None \<Rightarrow> Inl EngineSyntaxError
                     | Some func \<Rightarrow>
                         (if hasValidResult func testValues then Inr func
                          else Inl NoValidNumericResults))))"

definition evaluate :: "jsfunc \<Rightarrow> jsnum \<Rightarrow> jsval" where
  "evaluate func x =
     (case func x of
        Throws \<Rightarrow> Number NaN
      | Returns result \<Rightarrow> (if \<not> is_number result then Number NaN else result))"

section \<open>FunctionAnalyzer.isFunction\<close>

fun isFunction_loop :: "jsfunc \<Rightarrow> jsnum list \<Rightarrow> bool" where
  "isFunction_loop func [] = True"
| "isFunction_loop func (x # rest) =
     (let y = evaluate func x
      in if \<not> is_number y then False else isFunction_loop func rest)"

definition isFunction :: "jsfunc \<Rightarrow> bool" where
  "isFunction func = isFunction_loop func [num (- 5), num (- 2), num 0, num 1, num 3, num 5]"

section \<open>The engine on arithmetic expressions\<close>

text \<open>
  To run \<^verbatim>\<open>parse\<close> on concrete texts, the engine is modelled on a fragment of JavaScript
  expressions: decimal literals, the parameter \<^verbatim>\<open>x\<close>, the names \<^verbatim>\<open>pi\<close> and \<^verbatim>\<open>e\<close> (which
  neither the language nor the page binds, so that reading them throws a
  \<^verbatim>\<open>ReferenceError\<close>), parentheses, unary and binary \<^verbatim>\<open>+\<close> and \<^verbatim>\<open>-\<close>, \<^verbatim>\<open>*\<close>, \<^verbatim>\<open>/\<close>,
  \<^verbatim>\<open>**\<close> with a small integer literal as exponent, and calls \<^verbatim>\<open>Math.f(...)\<close> of the
  functions that the rewriting produces. The language leaves the values of most of these
  functions to the implementation, so the engine takes them as a parameter: a map from
  function names to functions on numbers; a call of a function that the map does not
  provide is outside the fragment. The answer on a text is one of three:
  accepted with its meaning, rejected (a \<^verbatim>\<open>SyntaxError\<close>: the text ends where an operand or
  a closing parenthesis must follow), or outside the fragment.
\<close>

datatype token = TNum int nat | TName string | TMath string | TPlus | TMinus | TStar | TSlash
  | TPow | TOpen | TClose

datatype 'a verdict = Accept 'a | Reject | Unmodelled

definition is_name_char :: "char \<Rightarrow> bool" where
  "is_name_char c = (is_word c \<or> c = CHR ''$'')"

definition digit_val :: "char \<Rightarrow> int" where
  "digit_val c = int (of_char c) - 48"

definition digits_val :: "string \<Rightarrow> int" where
  "digits_val ds = foldl (\<lambda>a c. 10 * a + digit_val c) 0 ds"

definition lex_number :: "string \<Rightarrow> (token \<times> string) option" where
  \<comment> \<open>a decimal literal with at most 20 digits and no exponent part; a literal with a
      leading zero before further digits, and one directly followed by a name character or
      a dot, are outside the fragment\<close>
  "lex_number s =
     (let ip = takeWhile is_digit s; r1 = dropWhile is_digit s;
          has_frac = starts_with ''.'' r1;
          fp = (if has_frac then takeWhile is_digit (tl r1) else []);
          r2 = (if has_frac then dropWhile is_digit (tl r1) else r1)
      in if ip = [] \<or> (1 < length ip \<and> hd ip = CHR ''0'') \<or> 20 < length ip + length fp
            \<or> (case r2 of [] \<Rightarrow> False | c # _ \<Rightarrow> is_name_char c \<or> c = CHR ''.'')
         then None
         else Some (TNum (digits_val (ip @ fp)) (length fp), r2))"

definition math_names :: "string list" where
  \<comment> \<open>the properties of \<^verbatim>\<open>Math\<close> that the rewriting of \<^verbatim>\<open>parse\<close> can produce\<close>
  "math_names = [''sin'', ''cos'', ''tan'', ''log10'', ''log'', ''sqrt'', ''abs'', ''floor'',
                 ''ceil'', ''round'', ''exp'']"

fun lex :: "nat \<Rightarrow> string \<Rightarrow> token list option" where
  \<comment> \<open>the first argument bounds the number of steps; the length of the text is enough\<close>
  "lex fuel [] = Some []"
| "lex 0 (c # cs) = None"
| "lex (Suc fuel) (c # cs) =
     (if is_space c then lex fuel cs
      else if is_digit c then
        (case lex_number (c # cs) of None \<Rightarrow> None
         | Some (t, rest) \<Rightarrow> map_option ((#) t) (lex fuel rest))
      else if is_name_char c then
        (let name = takeWhile is_name_char (c # cs); rest = dropWhile is_name_char (c # cs)
         in if starts_with ''.'' rest
            then (let f = takeWhile is_name_char (tl rest);
                      rest' = dropWhile is_name_char (tl rest)
                  in if name = ''Math'' \<and> f \<in> set math_names \<and> \<not> starts_with ''.'' rest'
                     then map_option ((#) (TMath f)) (lex fuel rest') else None)
            else map_option ((#) (TName name)) (lex fuel rest))
      else if c = CHR ''('' then map_option ((#) TOpen) (lex fuel cs)
      else if c = CHR '')'' then map_option ((#) TClose) (lex fuel cs)
      else if c = CHR ''+'' then
        (if starts_with ''+'' cs then None else map_option ((#) TPlus) (lex fuel cs))
      else if c = CHR ''-'' then
        (if starts_with ''-'' cs then None else map_option ((#) TMinus) (lex fuel cs))
      else if c = CHR ''*'' then
        (if starts_with ''*'' cs then map_option ((#) TPow) (lex fuel (tl cs))
         else map_option ((#) TStar) (lex fuel cs))
      else if c = CHR ''/'' then
        (if starts_with ''/'' cs \<or> starts_with ''*'' cs then None
         else map_option ((#) TSlash) (lex fuel cs))
      else None)"

datatype expr = Lit jsnum | Var | Free string | Neg expr | Pos expr
  | Add expr expr | Sub expr expr | Mul expr expr | Div expr expr | PowInt expr nat
  | Call string expr

definition unbound_names :: "string list" where
  "unbound_names = [''pi'', ''e'']"

type_synonym parsed = "(expr \<times> token list) verdict"

datatype grammar_rule = Primary | Unary | Exponentiation | MultiplicativeRest | Multiplicative
  | AdditiveRest | Additive

primrec p_rule :: "nat \<Rightarrow> grammar_rule \<Rightarrow> expr \<Rightarrow> token list \<Rightarrow> parsed" where
  \<comment> \<open>recursive descent along the grammar of the language; the first argument bounds the
      depth of the recursion, the expression argument is the left operand collected so far
      (used by \<^verbatim>\<open>MultiplicativeRest\<close> and \<^verbatim>\<open>AdditiveRest\<close> only)\<close>
  "p_rule 0 nt acc ts = Unmodelled"
| "p_rule (Suc f) nt acc ts =
     (case nt of
        Primary \<Rightarrow>
          (case ts of
             [] \<Rightarrow> Reject
           | TNum n k # rest \<Rightarrow> Accept (Lit (dec n k), rest)
           | TName s # rest \<Rightarrow>
               (if s = ''x'' then Accept (Var, rest)
                else if s \<in> set unbound_names then Accept (Free s, rest) else Unmodelled)
           | TOpen # rest \<Rightarrow>
               (case p_rule f Additive acc rest of
                  Accept (e, r) \<Rightarrow>
                    (if r = [] then Reject
                     else if starts_with [TClose] r then Accept (e, tl r) else Unmodelled)
                | Reject \<Rightarrow> Reject
                | Unmodelled \<Rightarrow> Unmodelled)
           | TMath g # rest \<Rightarrow>
               (if starts_with [TOpen] rest
                then (case p_rule f Additive acc (tl rest) of
                        Accept (e, r) \<Rightarrow>
                          (if r = [] then Reject
                           else if starts_with [TClose] r then Accept (Call g e, tl r)
                           else Unmodelled)
                      | Reject \<Rightarrow> Reject
                      | Unmodelled \<Rightarrow> Unmodelled)
                else Unmodelled)
           | _ \<Rightarrow> Unmodelled)
      | Unary \<Rightarrow>
          (if starts_with [TMinus] ts
           then (case p_rule f Unary acc (tl ts) of Accept (e, r) \<Rightarrow> Accept (Neg e, r)
                 | Reject \<Rightarrow> Reject | Unmodelled \<Rightarrow> Unmodelled)
           else if starts_with [TPlus] ts
           then (case p_rule f Unary acc (tl ts) of Accept (e, r) \<Rightarrow> Accept (Pos e, r)
                 | Reject \<Rightarrow> Reject | Unmodelled \<Rightarrow> Unmodelled)
           else p_rule f Primary acc ts)
      | Exponentiation \<Rightarrow>
          (if starts_with [TMinus] ts \<or> starts_with [TPlus] ts
           then (case p_rule f Unary acc ts of
                   Accept (e, r) \<Rightarrow>
                     (if starts_with [TPow] r then Unmodelled else Accept (e, r))
                 | Reject \<Rightarrow> Reject | Unmodelled \<Rightarrow> Unmodelled)
           else (case p_rule f Primary acc ts of
                   Accept (b, r) \<Rightarrow>
                     (if starts_with [TPow] r
                      then (case tl r of
                              [] \<Rightarrow> Reject
                            | TNum n k # r' \<Rightarrow>
                                (if k = 0 \<and> n \<le> 64 \<and> \<not> starts_with [TPow] r'
                                 then Accept (PowInt b (nat n), r') else Unmodelled)
                            | _ \<Rightarrow> Unmodelled)
                      else Accept (b, r))
                 | Reject \<Rightarrow> Reject | Unmodelled \<Rightarrow> Unmodelled))
      | MultiplicativeRest \<Rightarrow>
          (if starts_with [TStar] ts
           then (case p_rule f Exponentiation acc (tl ts) of
                   Accept (e, r) \<Rightarrow> p_rule f MultiplicativeRest (Mul acc e) r
                 | Reject \<Rightarrow> Reject | Unmodelled \<Rightarrow> Unmodelled)
           else if starts_with [TSlash] ts
           then (case p_rule f Exponentiation acc (tl ts) of
                   Accept (e, r) \<Rightarrow> p_rule f MultiplicativeRest (Div acc e) r
                 | Reject \<Rightarrow> Reject | Unmodelled \<Rightarrow> Unmodelled)
           else Accept (acc, ts))
      | Multiplicative \<Rightarrow>
          (case p_rule f Exponentiation acc ts of
             Accept (e, r) \<Rightarrow> p_rule f MultiplicativeRest e r
           | Reject \<Rightarrow> Reject | Unmodelled \<Rightarrow> Unmodelled)
      | AdditiveRest \<Rightarrow>
          (if starts_with [TPlus] ts
           then (case p_rule f Multiplicative acc (tl ts) of
                   Accept (e, r) \<Rightarrow> p_rule f AdditiveRest (Add acc e) r
                 | Reject \<Rightarrow> Reject | Unmodelled \<Rightarrow> Unmodelled)
           else if starts_with [TMinus] ts
           then (case p_rule f Multiplicative acc (tl ts) of
                   Accept (e, r) \<Rightarrow> p_rule f AdditiveRest (Sub acc e) r
                 | Reject \<Rightarrow> Reject | Unmodelled \<Rightarrow> Unmodelled)
           else Accept (acc, ts))
      | Additive \<Rightarrow>
          (case p_rule f Multiplicative acc ts of
             Accept (e, r) \<Rightarrow> p_rule f AdditiveRest e r
           | Reject \<Rightarrow> Reject | Unmodelled \<Rightarrow> Unmodelled))"

definition parse_tokens :: "token list \<Rightarrow> expr verdict" where
  \<comment> \<open>a whole expression; tokens left over (a call, two operands side by side) put the
      text outside the fragment\<close>
  "parse_tokens ts =
     (case p_rule (8 * length ts + 8) Additive Var ts of
        Accept (e, rest) \<Rightarrow> (if rest = [] then Accept e else Unmodelled)
      | Reject \<Rightarrow> Reject
      | Unmodelled \<Rightarrow> Unmodelled)"

definition js_pow_int :: "jsnum \<Rightarrow> nat \<Rightarrow> jsnum" where
  \<comment> \<open>\<^verbatim>\<open>base ** n\<close> for an integer literal \<open>n\<close>. The language fixes the cases of a zero
      exponent and of a base that is NaN, infinite or zero, and asks for an approximation of
      the power otherwise; the model takes the correctly rounded power\<close>
  "js_pow_int base n =
     (if n = 0 then num 1
      else if isNaN base then NaN
      else if \<not> isFinite base then (if base = NInf \<and> odd n then NInf else PInf)
      else if is_zero base then (if base = NZero \<and> odd n then NZero else pzero)
      else round_quot (mant base < 0 \<and> odd n)
             (scale (\<bar>mant base\<bar> ^ n) (expo base * int n))
             (scale 1 (- (expo base * int n))))"

type_synonym libm = "string \<Rightarrow> (jsnum \<Rightarrow> jsnum) option"

fun eval_expr :: "libm \<Rightarrow> expr \<Rightarrow> jsnum \<Rightarrow> jsnum option" where
  \<comment> \<open>the value of the expression at \<^verbatim>\<open>x\<close>; \<^verbatim>\<open>None\<close> where reading an unbound name throws\<close>
  "eval_expr lm (Lit v) x = Some v"
| "eval_expr lm Var x = Some x"
| "eval_expr lm (Free s) x = None"
| "eval_expr lm (Neg a) x = map_option js_neg (eval_expr lm a x)"
| "eval_expr lm (Pos a) x = eval_expr lm a x"
| "eval_expr lm (Add a b) x =
     (case eval_expr lm a x of None \<Rightarrow> None
      | Some u \<Rightarrow> map_option (js_add u) (eval_expr lm b x))"
| "eval_expr lm (Sub a b) x =
     (case eval_expr lm a x of None \<Rightarrow> None
      | Some u \<Rightarrow> map_option (js_sub u) (eval_expr lm b x))"
| "eval_expr lm (Mul a b) x =
     (case eval_expr lm a x of None \<Rightarrow> None
      | Some u \<Rightarrow> map_option (js_mul u) (eval_expr lm b x))"
| "eval_expr lm (Div a b) x =
     (case eval_expr lm a x of None \<Rightarrow> None
      | Some u \<Rightarrow> map_option (js_div u) (eval_expr lm b x))"
| "eval_expr lm (PowInt a n) x = map_option (\<lambda>u. js_pow_int u n) (eval_expr lm a x)"
| "eval_expr lm (Call g a) x =
     (case lm g of None \<Rightarrow> None | Some h \<Rightarrow> map_option h (eval_expr lm a x))"

fun provided :: "libm \<Rightarrow> expr \<Rightarrow> bool" where
  \<comment> \<open>every function that the expression calls is provided\<close>
  "provided lm (Neg a) = provided lm a"
| "provided lm (Pos a) = provided lm a"
| "provided lm (Add a b) = (provided lm a \<and> provided lm b)"
| "provided lm (Sub a b) = (provided lm a \<and> provided lm b)"
| "provided lm (Mul a b) = (provided lm a \<and> provided lm b)"
| "provided lm (Div a b) = (provided lm a \<and> provided lm b)"
| "provided lm (PowInt a n) = provided lm a"
| "provided lm (Call g a) = ((case lm g of None \<Rightarrow> False | Some h \<Rightarrow> True) \<and> provided lm a)"
| "provided lm _ = True"

definition run_body :: "libm \<Rightarrow> expr \<Rightarrow> jsfunc" where
  \<comment> \<open>the function body around the expression: \<^verbatim>\<open>try { const result = ...; return result; }
      catch (e) { return NaN; }\<close>\<close>
  "run_body lm ex x =
     (case eval_expr lm ex x of None \<Rightarrow> Returns (Number NaN) | Some v \<Rightarrow> Returns (Number v))"

definition compile_fragment :: "libm \<Rightarrow> string \<Rightarrow> jsfunc verdict" where
  "compile_fragment lm e =
     (case lex (length e) e of
        None \<Rightarrow> Unmodelled
      | Some ts \<Rightarrow>
          (case parse_tokens ts of
             Accept ex \<Rightarrow> (if provided lm ex then Accept (run_body lm ex) else Unmodelled)
           | Reject \<Rightarrow> Reject
           | Unmodelled \<Rightarrow> Unmodelled))"

definition spliced :: "string \<Rightarrow> string" where
  \<comment> \<open>the expression inside a function body built by \<^verbatim>\<open>function_body\<close>\<close>
  "spliced body =
     take (length body - length body_prefix - length body_suffix) (drop (length body_prefix) body)"

definition new_Function_with :: "libm \<Rightarrow> engine" where
  \<comment> \<open>\<^verbatim>\<open>new Function("x", body)\<close> on the fragment; a text outside the fragment is not
      modelled and the answer \<^verbatim>\<open>None\<close> for it means nothing\<close>
  "new_Function_with lm param body =
     (if param = ''x'' \<and> body = function_body (spliced body)
      then (case compile_fragment lm (spliced body) of Accept func \<Rightarrow> Some func | _ \<Rightarrow> None)
      else None)"

definition new_Function :: engine where
  \<comment> \<open>the engine with no function of \<^verbatim>\<open>Math\<close> provided: arithmetic only\<close>
  "new_Function = new_Function_with (\<lambda>g. None)"

definition in_fragment :: "string \<Rightarrow> bool" where
  \<comment> \<open>the normalised text of the expression is one the model of the engine covers\<close>
  "in_fragment expression =
     (case compile_fragment (\<lambda>g. None) (normalize expression) of
        Unmodelled \<Rightarrow> False | _ \<Rightarrow> True)"

definition compiled :: "string \<Rightarrow> jsfunc" where
  \<comment> \<open>the function that \<^verbatim>\<open>parse\<close> returns on a text, with the engine of the fragment\<close>
  "compiled expression =
     (case parse new_Function expression of Inr func \<Rightarrow> func | Inl err \<Rightarrow> (\<lambda>x. Throws))"

definition compile_error :: "string \<Rightarrow> parse_error option" where
  \<comment> \<open>the error that \<^verbatim>\<open>parse\<close> throws on a text, with the engine of the fragment\<close>
  "compile_error expression =
     (case parse new_Function expression of Inr func \<Rightarrow> None | Inl err \<Rightarrow> Some err)"

definition fragment_expr :: "string \<Rightarrow> expr verdict" where
  \<comment> \<open>the expression that a text of the fragment stands for\<close>
  "fragment_expr e = (case lex (length e) e of None \<Rightarrow> Unmodelled | Some ts \<Rightarrow> parse_tokens ts)"

fun reads_unbound :: "expr \<Rightarrow> bool" where
  \<comment> \<open>the expression reads a name that nothing binds\<close>
  "reads_unbound (Free s) = True"
| "reads_unbound (Neg a) = reads_unbound a"
| "reads_unbound (Pos a) = reads_unbound a"
| "reads_unbound (Add a b) = (reads_unbound a \<or> reads_unbound b)"
| "reads_unbound (Sub a b) = (reads_unbound a \<or> reads_unbound b)"
| "reads_unbound (Mul a b) = (reads_unbound a \<or> reads_unbound b)"
| "reads_unbound (Div a b) = (reads_unbound a \<or> reads_unbound b)"
| "reads_unbound (PowInt a n) = reads_unbound a"
| "reads_unbound (Call g a) = reads_unbound a"
| "reads_unbound _ = False"

section \<open>Calls that write a global variable or do not return\<close>

text \<open>
  \<^verbatim>\<open>parse\<close> compiles every text that the engine accepts, and the code of such a text can do
  more than return or throw: it can assign to a global variable, and it can run forever. To
  say what \<^verbatim>\<open>evaluate\<close> does then, a call is modelled here with the global variables it starts
  from: it ends, returning or throwing, and leaves global variables, or it never ends.
  \<^verbatim>\<open>evaluate\<close> and \<^verbatim>\<open>parse\<close> are embedded a second time over such calls; on a function that
  only returns or throws they are \<^verbatim>\<open>evaluate\<close> and \<^verbatim>\<open>parse\<close> of above.

  The engine is extended by two forms of text around arithmetic expressions \<^verbatim>\<open>A\<close>, \<^verbatim>\<open>B\<close>, \<^verbatim>\<open>R\<close>
  that call no function: the assignment \<^verbatim>\<open>y=A\<close> to the name \<^verbatim>\<open>y\<close>, which neither the language
  nor the page binds (the code of \<^verbatim>\<open>new Function\<close> is not strict, so the assignment creates a
  global variable), and the call \<^verbatim>\<open>(()=>{while(A>B){}return R})()\<close> of a function with a loop
  whose body is empty.
\<close>

type_synonym globals = "string \<Rightarrow> jsval option"

datatype run = Ends outcome globals | Forever

type_synonym jsproc = "jsnum \<Rightarrow> globals \<Rightarrow> run"

type_synonym engine_in = "string \<Rightarrow> string \<Rightarrow> jsproc option"

definition evaluate_in :: "jsproc \<Rightarrow> jsnum \<Rightarrow> globals \<Rightarrow> (jsval \<times> globals) option" where
  \<comment> \<open>\<^verbatim>\<open>ExpressionParser.evaluate\<close>; \<^verbatim>\<open>None\<close> when the call of \<^verbatim>\<open>func\<close> does not return\<close>
  "evaluate_in func x g =
     (case func x g of
        Forever \<Rightarrow> None
      | Ends Throws g' \<Rightarrow> Some (Number NaN, g')
      | Ends (Returns result) g' \<Rightarrow>
          Some (if \<not> is_number result then Number NaN else result, g'))"

fun hasValidResult_in :: "jsproc \<Rightarrow> jsnum list \<Rightarrow> globals \<Rightarrow> (bool \<times> globals) option" where
  \<comment> \<open>the loop over \<^verbatim>\<open>testValues\<close>\<close>
  "hasValidResult_in func [] g = Some (False, g)"
| "hasValidResult_in func (testX # rest) g =
     (case func testX g of
        Forever \<Rightarrow> None
      | Ends Throws g' \<Rightarrow> hasValidResult_in func rest g'
      | Ends (Returns testResult) g' \<Rightarrow>
          (if is_number testResult \<and> isFinite (to_num testResult) then Some (True, g')
           else hasValidResult_in func rest g'))"

definition parse_in ::
  "engine_in \<Rightarrow> string \<Rightarrow> globals \<Rightarrow> ((parse_error + jsproc) \<times> globals) option" where
  \<comment> \<open>\<^verbatim>\<open>ExpressionParser.parse\<close>; \<^verbatim>\<open>None\<close> when a probing call does not return\<close>
  "parse_in the_engine expression g =
     (if expression = [] \<or> trim expression = [] then Some (Inl ExpressionCannotBeEmpty, g)
      else (let e = normalize expression
            in if \<not> paren_scan 0 e then Some (Inl MismatchedParentheses, g)
               else (case the_engine ''x'' (function_body e) of
                       None \<Rightarrow> Some (Inl EngineSyntaxError, g)
                     | Some func \<Rightarrow>
                         (case hasValidResult_in func testValues g of
                            None \<Rightarrow> None
                          | Some (ok, g') \<Rightarrow>
                              Some (if ok then Inr func else Inl NoValidNumericResults, g')))))"

definition arithmetic :: "string \<Rightarrow> expr option" where
  \<comment> \<open>the expression of a text of the fragment that calls no function\<close>
  "arithmetic e =
     (case fragment_expr e of
        Accept ex \<Rightarrow> (if provided (\<lambda>g. None) ex then Some ex else None)
      | _ \<Rightarrow> None)"

definition assignable :: "string list" where
  \<comment> \<open>names that neither the language nor the page binds\<close>
  "assignable = [''y'']"

definition assignment_parts :: "string \<Rightarrow> string \<times> string" where
  "assignment_parts e =
     (takeWhile is_name_char e, drop (length (takeWhile is_name_char e) + 1) e)"

definition compile_assignment :: "string \<Rightarrow> jsproc option" where
  \<comment> \<open>\<^verbatim>\<open>try { const result = y=A; return result; } catch (e) { return NaN; }\<close>: the value of
      \<^verbatim>\<open>A\<close> is stored in the global variable and returned; when \<^verbatim>\<open>A\<close> throws nothing is
      stored\<close>
  "compile_assignment e =
     (case assignment_parts e of (name, rhs) \<Rightarrow>
        (if e = name @ ''='' @ rhs \<and> name \<in> set assignable
         then (case arithmetic rhs of
                 None \<Rightarrow> None
               | Some ex \<Rightarrow>
                   Some (\<lambda>x g. case eval_expr (\<lambda>g. None) ex x of
                                  None \<Rightarrow> Ends (Returns (Number NaN)) g
                                | Some v \<Rightarrow> Ends (Returns (Number v)) (g(name \<mapsto> Number v))))
         else None))"

partial_function (option) while_empty :: "bool option \<Rightarrow> bool option" where
  \<comment> \<open>\<^verbatim>\<open>while (c) {}\<close> for a condition without effects, whose evaluation gives the same every
      time: \<^verbatim>\<open>None\<close> as condition is one that throws. The loop ends normally (\<^verbatim>\<open>Some True\<close>),
      throws (\<^verbatim>\<open>Some False\<close>), or does not end (\<^verbatim>\<open>None\<close>)\<close>
  "while_empty c =
     (case c of None \<Rightarrow> Some False | Some t \<Rightarrow> (if t then while_empty c else Some True))"

definition loop_head :: string where
  "loop_head = ''(()=>{while(''"

definition loop_mid :: string where
  "loop_mid = ''){}return ''"

definition loop_tail :: string where
  "loop_tail = ''})()''"

definition loop_parts :: "string \<Rightarrow> string \<times> string \<times> string" where
  \<comment> \<open>the texts \<^verbatim>\<open>A\<close>, \<^verbatim>\<open>B\<close> and \<^verbatim>\<open>R\<close> of \<^verbatim>\<open>(()=>{while(A>B){}return R})()\<close>\<close>
  "loop_parts e =
     (let t1 = drop (length loop_head) e;
          a = takeWhile (\<lambda>c. c \<noteq> CHR ''>'') t1;
          t2 = drop (length a + 1) t1;
          b = butlast (takeWhile (\<lambda>c. c \<noteq> CHR ''{'') t2);
          t3 = drop (length b + length loop_mid) t2;
          r = takeWhile (\<lambda>c. c \<noteq> CHR ''}'') t3
      in (a, b, r))"

definition compile_loop :: "string \<Rightarrow> jsproc option" where
  \<comment> \<open>the call of the arrow function: the loop runs while \<^verbatim>\<open>A > B\<close>, then the value of \<^verbatim>\<open>R\<close>
      is returned; an exception leaves the arrow function and is caught by the body of the
      compiled function, which returns NaN. No white space in \<^verbatim>\<open>R\<close>: a line break after
      \<^verbatim>\<open>return\<close> would end the statement\<close>
  "compile_loop e =
     (case loop_parts e of (a, b, r) \<Rightarrow>
        (if e = loop_head @ a @ ''>'' @ b @ loop_mid @ r @ loop_tail \<and> \<not> list_ex is_space r
         then (case (arithmetic a, arithmetic b, arithmetic r) of
                 (Some ea, Some eb, Some er) \<Rightarrow>
                   Some (\<lambda>x g.
                     case while_empty
                            (case eval_expr (\<lambda>g. None) ea x of
                               None \<Rightarrow> None
                             | Some u \<Rightarrow> map_option (js_gt u) (eval_expr (\<lambda>g. None) eb x)) of
                       None \<Rightarrow> Forever
                     | Some ended \<Rightarrow>
                         (if ended
                          then (case eval_expr (\<lambda>g. None) er x of
                                  None \<Rightarrow> Ends (Returns (Number NaN)) g
                                | Some v \<Rightarrow> Ends (Returns (Number v)) g)
                          else Ends (Returns (Number NaN)) g))
               | _ \<Rightarrow> None)
         else None))"

definition new_Function_in :: engine_in where
  \<comment> \<open>\<^verbatim>\<open>new Function("x", body)\<close> on the fragment and the two forms; a text outside them is
      not modelled and the answer \<^verbatim>\<open>None\<close> for it means nothing\<close>
  "new_Function_in param body =
     (if param = ''x'' \<and> body = function_body (spliced body)
      then (case compile_fragment (\<lambda>g. None) (spliced body) of
              Accept func \<Rightarrow> Some (\<lambda>x g. Ends (func x) g)
            | Reject \<Rightarrow> None
            | Unmodelled \<Rightarrow>
                (case compile_assignment (spliced body) of
                   Some func \<Rightarrow> Some func
                 | None \<Rightarrow> compile_loop (spliced body)))
      else None)"

definition no_globals :: globals where
  "no_globals = (\<lambda>name. None)"

definition compiles_in :: "string \<Rightarrow> bool" where
  \<comment> \<open>\<^verbatim>\<open>parse\<close> returns a function on the text, with the extended engine and no global
      variable set before\<close>
  "compiles_in expression =
     (case parse_in new_Function_in expression no_globals of
        Some (Inr func, g) \<Rightarrow> True | _ \<Rightarrow> False)"

definition compiled_in :: "string \<Rightarrow> jsproc" where
  \<comment> \<open>the function that it returns\<close>
  "compiled_in expression =
     (case parse_in new_Function_in expression no_globals of
        Some (Inr func, g) \<Rightarrow> func | _ \<Rightarrow> (\<lambda>x g. Ends Throws g))"

definition value_of :: "(jsval \<times> globals) option \<Rightarrow> jsval option" where
  "value_of r = map_option fst r"

definition global_after :: "(jsval \<times> globals) option \<Rightarrow> string \<Rightarrow> jsval option" where
  \<comment> \<open>the global variable of that name after the call\<close>
  "global_after r name = (case r of None \<Rightarrow> None | Some (v, g) \<Rightarrow> g name)"

section \<open>Sweeps\<close>

text \<open>
  \<^verbatim>\<open>for (let x = a; x <= b; x += step)\<close>: the values of \<^verbatim>\<open>x\<close> at which the body runs. No
  body of \<^verbatim>\<open>graph.js\<close> assigns to \<^verbatim>\<open>x\<close>, so the values do not depend on the body. The loop
  need not end (a step of zero); \<^verbatim>\<open>None\<close> stands for a loop that runs forever.
\<close>

partial_function (option) sweep :: "jsnum \<Rightarrow> jsnum \<Rightarrow> jsnum \<Rightarrow> jsnum list option" where
  "sweep x b step =
     (if js_le x b then Option.bind (sweep (js_add x step) b step) (\<lambda>rest. Some (x # rest))
      else Some [])"

declare sweep.simps [code]

section \<open>FunctionAnalyzer.checkSymmetry\<close>

record symmetry =
  isEven :: bool
  isOdd :: bool

record symmetry_counts =
  oddCount :: nat
  evenCount :: nat
  totalTests :: nat

definition symmetry_points :: "jsnum list" where
  "symmetry_points = [num (- 3), num (- 2), num (- 1), dec (- 5) 1, dec 5 1, num 1, num 2, num 3]"

definition symmetry_step :: "jsfunc \<Rightarrow> symmetry_counts \<Rightarrow> jsnum \<Rightarrow> symmetry_counts" where
  \<comment> \<open>the body of the loop over \<^verbatim>\<open>testPoints\<close>\<close>
  "symmetry_step func c x =
     (if js_eq x (num 0) then c
      else (let fx = to_num (evaluate func x);
                fNegX = to_num (evaluate func (js_neg x))
            in if isNaN fx \<or> isNaN fNegX \<or> \<not> isFinite fx \<or> \<not> isFinite fNegX then c
               else (let c1 = c\<lparr>totalTests := totalTests c + 1\<rparr>;
                         c2 = (if js_lt (Math_abs (js_sub fNegX fx)) (dec 1 10)
                               then c1\<lparr>evenCount := evenCount c1 + 1\<rparr> else c1)
                     in if js_lt (Math_abs (js_sub fNegX (js_neg fx))) (dec 1 10)
                        then c2\<lparr>oddCount := oddCount c2 + 1\<rparr> else c2)))"

definition checkSymmetry :: "jsfunc \<Rightarrow> symmetry" where
  "checkSymmetry func =
     (let c = foldl (symmetry_step func) \<lparr>oddCount = 0, evenCount = 0, totalTests = 0\<rparr>
                symmetry_points
      in \<lparr>isEven = (0 < totalTests c
                    \<and> js_ge (js_div (num (int (evenCount c))) (num (int (totalTests c)))) (dec 8 1)),
          isOdd = (0 < totalTests c
                   \<and> js_ge (js_div (num (int (oddCount c))) (num (int (totalTests c)))) (dec 8 1))\<rparr>)"

section \<open>FunctionAnalyzer.isOneToOne\<close>

fun one_to_one_loop :: "jsfunc \<Rightarrow> jsnum list \<Rightarrow> jsnum list \<Rightarrow> bool" where
  \<comment> \<open>the loop over \<^verbatim>\<open>testPoints\<close>, with \<^verbatim>\<open>yValues\<close> as collected so far, and the final
      \<^verbatim>\<open>return yValues.length > 5\<close>\<close>
  "one_to_one_loop func [] yValues = (5 < length yValues)"
| "one_to_one_loop func (x # rest) yValues =
     (let y = to_num (evaluate func x)
      in if isNaN y \<or> \<not> isFinite y then one_to_one_loop func rest yValues
         else if list_ex (\<lambda>prevY. js_lt (Math_abs (js_sub y prevY)) (dec 1 8)) yValues
         then False
         else one_to_one_loop func rest (yValues @ [y]))"

definition isOneToOne :: "jsfunc \<Rightarrow> bool option" where
  "isOneToOne func =
     map_option (\<lambda>testPoints. one_to_one_loop func testPoints [])
       (sweep (num (- 5)) (num 5) (dec 5 1))"

section \<open>FunctionAnalyzer.analyzeDomain\<close>

datatype domain_text =
    XGe0 \<comment> \<open>"x >= 0", written with U+2265\<close>
  | UnderRootGe0 \<comment> \<open>"Expression under (root sign) must be >= 0"\<close>
  | XGt0 \<comment> \<open>"x > 0"\<close>
  | InsideLogGt0 \<comment> \<open>"Expression inside log must be > 0"\<close>
  | XNe0 \<comment> \<open>"x (not equal) 0", written with U+2260\<close>
  | XNeHalfPi \<comment> \<open>"x (not equal) pi/2 + n pi, where n is any integer"\<close>
  | XNeNPi \<comment> \<open>"x (not equal) n pi, where n is any integer"\<close>
  | XNeList "jsnum list" \<comment> \<open>"x (not equal) " followed by \<^verbatim>\<open>restrictions.join(", ")\<close>\<close>
  | MultipleRestrictions \<comment> \<open>"Multiple restrictions (see graph for asymptotes)"\<close>
  | AllRealNumbers \<comment> \<open>"All real numbers (R)"\<close>

fun matches_somewhere :: "(string \<Rightarrow> bool) \<Rightarrow> string \<Rightarrow> bool" where
  \<comment> \<open>\<^verbatim>\<open>s.match(re)\<close> is not null: the expression matches at some position\<close>
  "matches_somewhere m [] = m []"
| "matches_somewhere m (c # cs) = (m (c # cs) \<or> matches_somewhere m cs)"

definition call_with_x :: "string \<Rightarrow> string \<Rightarrow> bool" where
  \<comment> \<open>\<^verbatim>\<open>/sqrt\([^)]*x[^)]*\)/\<close> at the start of the text: the characters up to the first
      \<^verbatim>\<open>)\<close> after the opening parenthesis contain an \<^verbatim>\<open>x\<close>\<close>
  "call_with_x name s =
     (starts_with (name @ ''('') s
      \<and> (let rest = drop (length name + 1) s
         in CHR ''x'' \<in> set (takeWhile not_close rest) \<and> dropWhile not_close rest \<noteq> []))"

definition sqrt_pattern :: "string \<Rightarrow> domain_text option" where
  "sqrt_pattern expr =
     (if includes_str expr ''sqrt(''
      then (if matches_somewhere (starts_with ''sqrt(x)'') expr then Some XGe0
            else if matches_somewhere (call_with_x ''sqrt'') expr then Some UnderRootGe0
            else None)
      else None)"

definition log_pattern :: "string \<Rightarrow> domain_text option" where
  "log_pattern expr =
     (if includes_str expr ''log('' \<or> includes_str expr ''ln(''
      then (if matches_somewhere (\<lambda>s. starts_with ''log(x)'' s \<or> starts_with ''ln(x)'' s) expr
            then Some XGt0
            else if matches_somewhere (\<lambda>s. call_with_x ''log'' s \<or> call_with_x ''ln'' s) expr
            then Some InsideLogGt0
            else None)
      else None)"

definition domain_step :: "jsfunc \<Rightarrow> jsnum list \<Rightarrow> jsnum \<Rightarrow> jsnum list" where
  \<comment> \<open>the body of the sampling loop, with \<^verbatim>\<open>restrictions\<close> as collected so far\<close>
  "domain_step func restrictions x =
     (let y = to_num (evaluate func x)
      in if \<not> isFinite y
         then (let rounded = js_div (Math_round (js_mul x (num 10))) (num 10)
               in if \<not> list_ex (\<lambda>r. js_lt (Math_abs (js_sub r rounded)) (dec 5 2)) restrictions
                  then restrictions @ [rounded] else restrictions)
         else restrictions)"

definition domain_report :: "jsnum list \<Rightarrow> domain_text" where
  "domain_report restrictions =
     (if 0 < length restrictions
      then (if length restrictions \<le> 5 then XNeList restrictions else MultipleRestrictions)
      else AllRealNumbers)"

definition analyzeDomain :: "jsfunc \<Rightarrow> string \<Rightarrow> domain_text option" where
  \<comment> \<open>\<^verbatim>\<open>None\<close> would be a sampling loop that does not end\<close>
  "analyzeDomain func expression =
     (let expr = toLowerCase expression
      in case sqrt_pattern expr of Some d \<Rightarrow> Some d | None \<Rightarrow>
        (case log_pattern expr of Some d \<Rightarrow> Some d | None \<Rightarrow>
          (if includes_str expr ''/x'' \<or> includes_str expr ''1/x'' then Some XNe0
           else if includes_str expr ''tan(x)'' \<or> includes_str expr ''cot(x)'' then Some XNeHalfPi
           else if includes_str expr ''sec(x)'' then Some XNeHalfPi
           else if includes_str expr ''csc(x)'' then Some XNeNPi
           else map_option (\<lambda>xs. domain_report (foldl (domain_step func) [] xs))
                  (sweep (num (- 20)) (num 20) (dec 1 1)))))"

section \<open>FunctionAnalyzer.analyzeRange\<close>

datatype range_text =
    AllReals \<comment> \<open>"All real numbers (R)"\<close>
  | ToPlusInfinity \<comment> \<open>"y -> +infinity"\<close>
  | ToMinusInfinity \<comment> \<open>"y -> -infinity"\<close>
  | CannotDetermine \<comment> \<open>"Cannot determine range"\<close>
  | YGe0 \<comment> \<open>"y >= 0"\<close>
  | YGe jsnum \<comment> \<open>"y >= " followed by \<^verbatim>\<open>minY.toFixed(2)\<close>\<close>
  | YLe0 \<comment> \<open>"y <= 0"\<close>
  | YLe jsnum \<comment> \<open>"y <= " followed by \<^verbatim>\<open>maxY.toFixed(2)\<close>\<close>
  | ApproxConstant jsnum \<comment> \<open>"y (about) c (approximately constant)", c the number
      with two decimals\<close>
  | MinusOneToOne \<comment> \<open>"-1 <= y <= 1"\<close>
  | ZeroTo jsnum \<comment> \<open>"0 <= y <= " followed by \<^verbatim>\<open>maxY.toFixed(2)\<close>\<close>
  | UpToZero jsnum \<comment> \<open>\<^verbatim>\<open>minY.toFixed(2)\<close> followed by " <= y <= 0"\<close>
  | Between jsnum jsnum \<comment> \<open>\<^verbatim>\<open>minY.toFixed(2)\<close>, " <= y <= ", \<^verbatim>\<open>maxY.toFixed(2)\<close>\<close>

record range_stats =
  minY :: jsnum
  maxY :: jsnum
  hasInfiniteValues :: bool
  hasNegativeInfinite :: bool
  hasPositiveInfinite :: bool
  validPoints :: nat

definition range_start :: range_stats where
  "range_start = \<lparr>minY = PInf, maxY = NInf, hasInfiniteValues = False,
                  hasNegativeInfinite = False, hasPositiveInfinite = False, validPoints = 0\<rparr>"

definition range_step :: "jsfunc \<Rightarrow> range_stats \<Rightarrow> jsnum \<Rightarrow> range_stats" where
  \<comment> \<open>the body of the sampling loop\<close>
  "range_step func st x =
     (let y = to_num (evaluate func x)
      in if \<not> isFinite y
         then st\<lparr>hasInfiniteValues := True,
                 hasPositiveInfinite := (if js_eq y PInf then True else hasPositiveInfinite st),
                 hasNegativeInfinite := (if js_eq y NInf then True else hasNegativeInfinite st)\<rparr>
         else (let st1 = st\<lparr>validPoints := validPoints st + 1\<rparr>;
                   st2 = (if js_lt y (minY st1) then st1\<lparr>minY := y\<rparr> else st1)
               in if js_gt y (maxY st2) then st2\<lparr>maxY := y\<rparr> else st2))"

definition infinite_case :: "range_stats \<Rightarrow> range_text option" where
  \<comment> \<open>"Handle infinite values"\<close>
  "infinite_case st =
     (if hasInfiniteValues st
      then (if hasPositiveInfinite st \<and> hasNegativeInfinite st then Some AllReals
            else if hasPositiveInfinite st then Some ToPlusInfinity
            else if hasNegativeInfinite st then Some ToMinusInfinity
            else None)
      else None)"

definition range_probes :: "jsnum list" where
  "range_probes = [js_neg (num 100), js_neg (num 10), num 0, num 10, num 100]"

definition probe_case :: "jsfunc \<Rightarrow> range_stats \<Rightarrow> range_text option" where
  \<comment> \<open>"Test for quadratic and higher-degree polynomial behavior FIRST"\<close>
  "probe_case func st =
     (let testValues = map (\<lambda>x. to_num (evaluate func x)) range_probes
      in if list_all isFinite testValues
         then (let y_neg100 = testValues ! 0; y_neg10 = testValues ! 1; y_0 = testValues ! 2;
                   y_10 = testValues ! 3; y_100 = testValues ! 4;
                   slope = js_div (js_sub y_100 y_neg100) (num 200)
               in if js_gt y_neg100 (num 100) \<and> js_gt y_100 (num 100)
                     \<and> js_le y_0 (Math_min y_neg100 y_100)
                  then (if js_ge (minY st) (js_neg (dec 1 1)) \<and> js_le (minY st) (dec 1 1)
                        then Some YGe0 else Some (YGe (minY st)))
                  else if js_lt y_neg100 (js_neg (num 100)) \<and> js_lt y_100 (js_neg (num 100))
                     \<and> js_ge y_0 (Math_max y_neg100 y_100)
                  then (if js_ge (maxY st) (js_neg (dec 1 1)) \<and> js_le (maxY st) (dec 1 1)
                        then Some YLe0 else Some (YLe (maxY st)))
                  else if js_lt y_neg100 y_neg10 \<and> js_lt y_neg10 y_0 \<and> js_lt y_0 y_10
                     \<and> js_lt y_10 y_100 \<and> js_gt (Math_abs slope) (dec 1 1)
                  then Some AllReals
                  else if js_gt y_neg100 y_neg10 \<and> js_gt y_neg10 y_0 \<and> js_gt y_0 y_10
                     \<and> js_gt y_10 y_100 \<and> js_gt (Math_abs slope) (dec 1 1)
                  then Some AllReals
                  else None)
         else None)"

definition bounded_case :: "range_stats \<Rightarrow> range_text" where
  \<comment> \<open>from "Check if function appears constant" to the end\<close>
  "bounded_case st =
     (if js_lt (Math_abs (js_sub (maxY st) (minY st))) (dec 1 2)
      then ApproxConstant (js_div (js_add (minY st) (maxY st)) (num 2))
      else if js_ge (minY st) (js_neg (dec 11 1)) \<and> js_le (maxY st) (dec 11 1)
              \<and> js_le (minY st) (js_neg (dec 9 1)) \<and> js_ge (maxY st) (dec 9 1)
      then MinusOneToOne
      else if js_ge (minY st) (js_neg (dec 1 1)) \<and> js_le (minY st) (dec 1 1)
      then (if js_gt (maxY st) (num 100) then YGe0 else ZeroTo (maxY st))
      else if js_ge (maxY st) (js_neg (dec 1 1)) \<and> js_le (maxY st) (dec 1 1)
      then (if js_lt (minY st) (js_neg (num 100)) then YLe0 else UpToZero (minY st))
      else if js_gt (Math_abs (js_sub (maxY st) (minY st))) (num 100) then AllReals
      else Between (minY st) (maxY st))"

definition range_decide :: "jsfunc \<Rightarrow> range_stats \<Rightarrow> range_text" where
  \<comment> \<open>everything after the sampling loop\<close>
  "range_decide func st =
     (case infinite_case st of Some r \<Rightarrow> r | None \<Rightarrow>
        (if \<not> isFinite (minY st) \<or> \<not> isFinite (maxY st) \<or> validPoints st < 10
         then CannotDetermine
         else (case probe_case func st of Some r \<Rightarrow> r | None \<Rightarrow> bounded_case st)))"

definition analyzeRange :: "jsfunc \<Rightarrow> range_text option" where
  \<comment> \<open>\<^verbatim>\<open>None\<close> would be a sampling loop that does not end\<close>
  "analyzeRange func =
     map_option (\<lambda>xs. range_decide func (foldl (range_step func) range_start xs))
       (sweep (js_neg (num 50)) (num 50) (dec 1 1))"

section \<open>drawAsymptotes\<close>

definition is_asymptote :: "jsfunc \<Rightarrow> jsnum \<Rightarrow> jsnum \<Rightarrow> jsnum \<Rightarrow> bool" where
  \<comment> \<open>the body of the scanning loop at \<^verbatim>\<open>x\<close>: whether it pushes \<^verbatim>\<open>x\<close> (it pushes at most
      once)\<close>
  "is_asymptote func step yThreshold x =
     (let y = to_num (evaluate func x);
          yLeft = to_num (evaluate func (js_sub x step));
          yRight = to_num (evaluate func (js_add x step))
      in if \<not> isFinite y \<and> isFinite yLeft \<and> isFinite yRight then True
         else if isFinite yLeft \<and> isFinite yRight \<and> isFinite y
                 \<and> js_gt (Math_abs yLeft) yThreshold \<and> js_gt (Math_abs yRight) yThreshold
                 \<and> \<not> js_eq (Math_sign yLeft) (Math_sign yRight)
         then True
         else if isFinite yLeft \<and> isFinite yRight
         then (let slope1 = js_div (Math_abs (js_sub y yLeft)) step;
                   slope2 = js_div (Math_abs (js_sub yRight y)) step;
                   maxSlope = Math_max slope1 slope2
               in js_gt maxSlope (js_div yThreshold step)
                  \<and> ((js_gt yLeft yThreshold \<and> js_lt yRight (js_neg yThreshold))
                     \<or> (js_lt yLeft (js_neg yThreshold) \<and> js_gt yRight yThreshold)))
         else False)"

definition clean_step :: "jsnum \<Rightarrow> jsnum list \<Rightarrow> jsnum \<Rightarrow> jsnum list" where
  \<comment> \<open>the body of the loop that removes duplicates\<close>
  "clean_step minDistance cleanedAsymptotes candidate =
     (if \<not> list_ex (\<lambda>existing. js_lt (Math_abs (js_sub existing candidate)) minDistance)
            cleanedAsymptotes
      then cleanedAsymptotes @ [candidate] else cleanedAsymptotes)"

definition drawAsymptotes :: "jsfunc option \<Rightarrow> jsnum \<Rightarrow> jsnum \<Rightarrow> jsnum \<Rightarrow> jsnum list option" where
  \<comment> \<open>the list \<^verbatim>\<open>cleanedAsymptotes\<close> whose lines are drawn, from \<^verbatim>\<open>currentFunction\<close>,
      \<^verbatim>\<open>canvas.width\<close>, \<^verbatim>\<open>canvas.height\<close> and \<^verbatim>\<open>gridSize\<close>; \<^verbatim>\<open>None\<close> is a scan that does not
      end\<close>
  "drawAsymptotes currentFunction width height gridSize =
     (case currentFunction of
        None \<Rightarrow> Some []
      | Some func \<Rightarrow>
          (let xMin = js_div (js_neg width) (js_mul (num 2) gridSize);
               xMax = js_div width (js_mul (num 2) gridSize);
               xRange = js_sub xMax xMin;
               step = js_div xRange (num 2000);
               yThreshold = js_div height (js_mul (num 4) gridSize)
           in map_option
                (\<lambda>xs. foldl (clean_step (js_mul step (num 10))) []
                        (filter (is_asymptote func step yThreshold) xs))
                (sweep xMin xMax step)))"

section \<open>The specification's words\<close>

fun depth :: "string \<Rightarrow> int" where
  \<comment> \<open>opening minus closing parentheses\<close>
  "depth [] = 0"
| "depth (c # cs) = (if c = CHR ''('' then 1 else if c = CHR '')'' then - 1 else 0) + depth cs"

definition counter_ok :: "string \<Rightarrow> bool" where
  \<comment> \<open>the counter of the left-to-right scan never goes negative and is zero at the end\<close>
  "counter_ok t = ((\<forall>k \<le> length t. 0 \<le> depth (take k t)) \<and> depth t = 0)"

definition whitespace_only :: "string \<Rightarrow> bool" where
  "whitespace_only s = (\<forall>c \<in> set s. is_space c)"

fun val :: "jsnum \<Rightarrow> real" where
  \<comment> \<open>the real number that a finite number stands for\<close>
  "val (Fin m q) = real_of_int m * 2 powr real_of_int q"
| "val _ = 0"

definition valid_pair :: "jsfunc \<Rightarrow> jsnum \<Rightarrow> bool" where
  \<comment> \<open>the pair \<open>(x, -x)\<close> yields two finite values\<close>
  "valid_pair func x =
     (isFinite (to_num (evaluate func x)) \<and> isFinite (to_num (evaluate func (js_neg x))))"

definition even_pair :: "jsfunc \<Rightarrow> jsnum \<Rightarrow> bool" where
  \<comment> \<open>\<open>|f(-x) - f(x)| < 1e-10\<close>\<close>
  "even_pair func x =
     js_lt (Math_abs (js_sub (to_num (evaluate func (js_neg x))) (to_num (evaluate func x))))
       (dec 1 10)"

definition odd_pair :: "jsfunc \<Rightarrow> jsnum \<Rightarrow> bool" where
  \<comment> \<open>\<open>|f(-x) + f(x)| < 1e-10\<close>\<close>
  "odd_pair func x =
     js_lt (Math_abs (js_add (to_num (evaluate func (js_neg x))) (to_num (evaluate func x))))
       (dec 1 10)"

definition valid_pairs :: "jsfunc \<Rightarrow> jsnum list" where
  \<comment> \<open>the sample points whose pair yields two finite values\<close>
  "valid_pairs func = filter (valid_pair func) symmetry_points"

definition injectivity_points :: "jsnum list" where
  \<comment> \<open>-5, -4.5, ..., 5: 21 points\<close>
  "injectivity_points = map (\<lambda>k. fl k 2) [- 10, - 9, - 8, - 7, - 6, - 5, - 4, - 3, - 2, - 1, 0,
     1, 2, 3, 4, 5, 6, 7, 8, 9, 10]"

definition finite_values :: "jsfunc \<Rightarrow> jsnum list \<Rightarrow> jsnum list" where
  \<comment> \<open>the finite values at the points, in order\<close>
  "finite_values func xs = filter isFinite (map (\<lambda>x. to_num (evaluate func x)) xs)"

definition near :: "jsnum \<Rightarrow> jsnum \<Rightarrow> bool" where
  \<comment> \<open>within \<open>1e-8\<close>\<close>
  "near y prevY = js_lt (Math_abs (js_sub y prevY)) (dec 1 8)"

definition no_near_duplicate :: "jsnum list \<Rightarrow> bool" where
  \<comment> \<open>no value lies within \<open>1e-8\<close> of an earlier one\<close>
  "no_near_duplicate ys = (\<forall>i < length ys. \<forall>j < i. \<not> near (ys ! i) (ys ! j))"

definition some_probe_finite :: "jsfunc \<Rightarrow> bool" where
  \<comment> \<open>one of the fixed probes yields a finite number\<close>
  "some_probe_finite func =
     (\<exists>t \<in> set testValues. \<exists>r. func t = Returns (Number r) \<and> isFinite r)"

definition domain_answer :: "string \<Rightarrow> jsnum list \<Rightarrow> domain_text" where
  \<comment> \<open>the answer of the domain analysis for a lower-case text and the exclusions found by
      sampling: the patterns in the order of the specification, then the samples\<close>
  "domain_answer t restrictions =
     (if includes_str t ''sqrt(x)'' then XGe0
      else if matches_somewhere (call_with_x ''sqrt'') t then UnderRootGe0
      else if includes_str t ''log(x)'' \<or> includes_str t ''ln(x)'' then XGt0
      else if matches_somewhere (call_with_x ''log'') t \<or> matches_somewhere (call_with_x ''ln'') t
      then InsideLogGt0
      else if includes_str t ''/x'' then XNe0
      else if includes_str t ''tan(x)'' \<or> includes_str t ''cot(x)'' \<or> includes_str t ''sec(x)''
      then XNeHalfPi
      else if includes_str t ''csc(x)'' then XNeNPi
      else if restrictions = [] then AllRealNumbers
      else if length restrictions \<le> 5 then XNeList restrictions
      else MultipleRestrictions)"

definition non_finite_points :: "jsfunc \<Rightarrow> jsnum list \<Rightarrow> jsnum list" where
  \<comment> \<open>the sample points where \<^verbatim>\<open>evaluate\<close> is not finite, in order\<close>
  "non_finite_points func xs = filter (\<lambda>x. \<not> isFinite (to_num (evaluate func x))) xs"

definition one_decimal :: "jsnum \<Rightarrow> jsnum" where
  \<comment> \<open>rounded to one decimal\<close>
  "one_decimal x = js_div (Math_round (js_mul x (num 10))) (num 10)"

definition within_005 :: "jsnum \<Rightarrow> jsnum \<Rightarrow> bool" where
  \<comment> \<open>within \<open>0.05\<close>\<close>
  "within_005 r c = js_lt (Math_abs (js_sub r c)) (dec 5 2)"

fun keep_first :: "jsnum list \<Rightarrow> jsnum list \<Rightarrow> jsnum list" where
  \<comment> \<open>deduplicated within \<open>0.05\<close>: a candidate is dropped when it lies within \<open>0.05\<close> of one
      that is kept already (the first argument), and kept otherwise\<close>
  "keep_first kept [] = kept"
| "keep_first kept (c # cs) =
     (if \<exists>r \<in> set kept. within_005 r c then keep_first kept cs else keep_first (kept @ [c]) cs)"

definition exclusions :: "jsfunc \<Rightarrow> jsnum list \<Rightarrow> jsnum list" where
  \<comment> \<open>the x-values where \<^verbatim>\<open>evaluate\<close> is not finite, rounded to one decimal, deduplicated
      within \<open>0.05\<close>\<close>
  "exclusions func xs = keep_first [] (map one_decimal (non_finite_points func xs))"

definition apart :: "jsnum list \<Rightarrow> bool" where
  \<comment> \<open>no element lies within \<open>0.05\<close> of an earlier one\<close>
  "apart es = (\<forall>i < length es. \<forall>j < i. \<not> within_005 (es ! j) (es ! i))"

definition domain_head :: "jsnum list" where
  \<comment> \<open>the first 6 points of the sweep of the domain analysis, from -20 in steps of 0.1\<close>
  "domain_head = [Fin (- 5629499534213120) (- 48), Fin (- 5601352036542054) (- 48),
   Fin (- 5573204538870988) (- 48), Fin (- 5545057041199922) (- 48),
   Fin (- 5516909543528856) (- 48), Fin (- 5488762045857790) (- 48)]"

definition clear_of :: "jsnum list \<Rightarrow> jsnum list \<Rightarrow> bool" where
  \<comment> \<open>no value of the second list lies within \<open>1e-8\<close> of a value of the first list or of
      an earlier value of the second\<close>
  "clear_of acc ys = (\<forall>i < length ys. \<forall>p \<in> set acc \<union> set (take i ys). \<not> near (ys ! i) p)"

section \<open>Properties\<close>

lemma evaluate_cases:
  "evaluate func x = (case func x of Returns (Number n) \<Rightarrow> Number n | _ \<Rightarrow> Number NaN)"
  by (simp add: evaluate_def split: outcome.splits jsval.splits)

lemma evaluate_is_number: "is_number (evaluate func x)"
  by (simp add: evaluate_cases split: outcome.splits jsval.splits)

lemma isFunction_loop_True: "isFunction_loop func xs"
  by (induction xs) (simp_all add: evaluate_is_number)

lemma trim_empty_iff: "trim s = [] \<longleftrightarrow> whitespace_only s"
proof -
  have "dropWhile is_space s = [] \<longleftrightarrow> (\<forall>c \<in> set s. is_space c)"
    by (simp add: dropWhile_eq_Nil_conv)
  moreover have "rev (dropWhile is_space (rev (dropWhile is_space s))) = []
      \<longleftrightarrow> dropWhile is_space s = []"
    by (metis dropWhile_eq_Nil_conv rev_is_Nil_conv set_rev dropWhile.simps(1) hd_dropWhile list.set_sel(1) set_dropWhileD)
  ultimately show ?thesis by (simp add: trim_def whitespace_only_def)
qed

lemma paren_scan_depth:
  "0 \<le> n \<Longrightarrow> paren_scan n t \<longleftrightarrow> ((\<forall>k \<le> length t. 0 \<le> n + depth (take k t)) \<and> n + depth t = 0)"
proof (induction t arbitrary: n)
  case Nil
  then show ?case by auto
next
  case (Cons c cs)
  define d :: int where "d = (if c = CHR ''('' then 1 else if c = CHR '')'' then - 1 else 0)"
  have step: "paren_scan n (c # cs) = (if n + d < 0 then False else paren_scan (n + d) cs)"
    by (auto simp: d_def Let_def)
  have all: "(\<forall>k \<le> length (c # cs). 0 \<le> n + depth (take k (c # cs)))
      \<longleftrightarrow> (\<forall>k \<le> length cs. 0 \<le> n + d + depth (take k cs))"
  proof
    assume a: "\<forall>k \<le> length (c # cs). 0 \<le> n + depth (take k (c # cs))"
    show "\<forall>k \<le> length cs. 0 \<le> n + d + depth (take k cs)"
    proof (intro allI impI)
      fix k assume "k \<le> length cs"
      then have "Suc k \<le> length (c # cs)" by simp
      with a have "0 \<le> n + depth (take (Suc k) (c # cs))" by blast
      then show "0 \<le> n + d + depth (take k cs)" by (simp add: d_def)
    qed
  next
    assume a: "\<forall>k \<le> length cs. 0 \<le> n + d + depth (take k cs)"
    show "\<forall>k \<le> length (c # cs). 0 \<le> n + depth (take k (c # cs))"
    proof (intro allI impI)
      fix k assume k: "k \<le> length (c # cs)"
      show "0 \<le> n + depth (take k (c # cs))"
      proof (cases k)
        case 0
        then show ?thesis using Cons.prems by simp
      next
        case (Suc j)
        then have "j \<le> length cs" using k by simp
        with a have "0 \<le> n + d + depth (take j cs)" by blast
        then show ?thesis using Suc by (simp add: d_def)
      qed
    qed
  qed
  show ?case
  proof (cases "n + d < 0")
    case True
    have "\<not> (\<forall>k \<le> length cs. 0 \<le> n + d + depth (take k cs))"
      using True by (auto intro: exI[of _ 0])
    then show ?thesis using True step all by simp
  next
    case False
    then have "0 \<le> n + d" by simp
    from Cons.IH[OF this] show ?thesis
      using False step all by (simp add: d_def add.assoc)
  qed
qed

lemma paren_scan_counter_ok: "paren_scan 0 t \<longleftrightarrow> counter_ok t"
  using paren_scan_depth[of 0 t] by (simp add: counter_ok_def)

lemma hasValidResult_iff:
  "hasValidResult func ts \<longleftrightarrow> (\<exists>t \<in> set ts. \<exists>r. func t = Returns (Number r) \<and> isFinite r)"
proof (induction ts)
  case Nil
  then show ?case by simp
next
  case (Cons t ts)
  show ?case
  proof (cases "func t")
    case Throws
    then show ?thesis using Cons by auto
  next
    case (Returns v)
    then show ?thesis using Cons by (cases v) auto
  qed
qed


lemma whitespace_only_Nil: "whitespace_only []"
  by (simp add: whitespace_only_def)

lemma parse_unfold:
  "parse nf s =
     (if whitespace_only s then Inl ExpressionCannotBeEmpty
      else if \<not> counter_ok (normalize s) then Inl MismatchedParentheses
      else (case nf ''x'' (function_body (normalize s)) of
              None \<Rightarrow> Inl EngineSyntaxError
            | Some func \<Rightarrow>
                (if some_probe_finite func then Inr func else Inl NoValidNumericResults)))"
proof -
  have e: "(s = [] \<or> trim s = []) = whitespace_only s"
    using trim_empty_iff[of s] whitespace_only_Nil by auto
  show ?thesis
    unfolding parse_def e paren_scan_counter_ok some_probe_finite_def hasValidResult_iff Let_def
    by simp
qed

text \<open>
  Claim C3, as amended. \<^verbatim>\<open>parse\<close> returns a function or throws one of four errors, decided
  in this order: the text is empty or white space only; the parenthesis counter of the
  rewritten text goes negative or ends away from zero; the engine's \<^verbatim>\<open>new Function\<close>
  rejects the function text; none of the probes 0, 1, -1, 0.5, 2 yields a finite number.
  This holds for every engine \<^verbatim>\<open>nf\<close>.
\<close>
theorem C3_parse_outcomes:
  "(parse nf s = Inl ExpressionCannotBeEmpty \<longleftrightarrow> whitespace_only s) \<and>
   (parse nf s = Inl MismatchedParentheses \<longleftrightarrow>
      \<not> whitespace_only s \<and> \<not> counter_ok (normalize s)) \<and>
   (parse nf s = Inl EngineSyntaxError \<longleftrightarrow>
      \<not> whitespace_only s \<and> counter_ok (normalize s)
      \<and> nf ''x'' (function_body (normalize s)) = None) \<and>
   (parse nf s = Inl NoValidNumericResults \<longleftrightarrow>
      \<not> whitespace_only s \<and> counter_ok (normalize s)
      \<and> (\<exists>func. nf ''x'' (function_body (normalize s)) = Some func \<and> \<not> some_probe_finite func)) \<and>
   (parse nf s = Inr func \<longleftrightarrow>
      \<not> whitespace_only s \<and> counter_ok (normalize s)
      \<and> nf ''x'' (function_body (normalize s)) = Some func \<and> some_probe_finite func)"
  unfolding parse_unfold by (auto split: option.splits)

text \<open>
  Claim C3 as stated allows three errors only. The text \<^verbatim>\<open>x+\<close> is not empty, its
  parentheses are balanced, and \<^verbatim>\<open>new Function\<close> throws on it before any probe runs.
\<close>
theorem C3_counterexample:
  "compile_error ''x+'' = Some EngineSyntaxError \<and> in_fragment ''x+''"
  by code_simp

text \<open>
  The amended claim C3 at the empty text and at the two texts of the specification with a
  parenthesis missing.
\<close>
theorem C3_witness:
  "parse new_Function [] = Inl ExpressionCannotBeEmpty \<and>
   parse new_Function ''(x+1'' = Inl MismatchedParentheses \<and>
   parse new_Function ''x+1)'' = Inl MismatchedParentheses"
proof -
  have w: "whitespace_only []" "\<not> whitespace_only ''(x+1''" "\<not> whitespace_only ''x+1)''"
    unfolding trim_empty_iff[symmetric] by code_simp+
  have "\<not> paren_scan 0 (normalize ''(x+1'')" "\<not> paren_scan 0 (normalize ''x+1)'')"
    by code_simp+
  then have c: "\<not> counter_ok (normalize ''(x+1'')" "\<not> counter_ok (normalize ''x+1)'')"
    by (simp_all add: paren_scan_counter_ok)
  show ?thesis
    using C3_parse_outcomes[of new_Function "[]"] C3_parse_outcomes[of new_Function "''(x+1''"]
      C3_parse_outcomes[of new_Function "''x+1)''"] w c
    by blast
qed

subsection \<open>Evaluation\<close>

lemma while_empty_ends: "while_empty c = Some y \<Longrightarrow> c \<noteq> Some True"
proof (rule while_empty.raw_induct[where P = "\<lambda>c y. c \<noteq> Some True"])
  fix f :: "bool option \<Rightarrow> bool option" and c y
  assume ih: "\<And>c y. f c = Some y \<Longrightarrow> c \<noteq> Some True"
    and st: "(case c of None \<Rightarrow> Some False | Some t \<Rightarrow> if t then f c else Some True) = Some y"
  show "c \<noteq> Some True"
  proof
    assume "c = Some True"
    with st have "f (Some True) = Some y" by simp
    with ih show False by blast
  qed
qed

lemma while_empty_True: "while_empty (Some True) = None"
  using while_empty_ends[of "Some True"] by (cases "while_empty (Some True)") auto

lemma while_empty_code [code]:
  "while_empty c = (case c of None \<Rightarrow> Some False | Some t \<Rightarrow> (if t then None else Some True))"
proof (cases c)
  case None
  then show ?thesis by (subst while_empty.simps) simp
next
  case (Some t)
  show ?thesis
  proof (cases t)
    case True
    then show ?thesis using Some while_empty_True by simp
  next
    case False
    then show ?thesis using Some by (subst while_empty.simps) simp
  qed
qed

lemma evaluate_in_pure: "evaluate_in (\<lambda>x g. Ends (func x) g) x g = Some (evaluate func x, g)"
  by (simp add: evaluate_in_def evaluate_def split: outcome.splits)

lemma hasValidResult_in_pure:
  "hasValidResult_in (\<lambda>x g. Ends (func x) g) ts g = Some (hasValidResult func ts, g)"
  by (induction ts) (simp_all split: outcome.splits)

text \<open>
  Claim C1 says that \<^verbatim>\<open>evaluate\<close> terminates, never returns a signed infinity and never
  mutates external state. Three texts compile, each from no global variable set: the
  function of \<^verbatim>\<open>1/x\<close> evaluated at 0 gives \<^verbatim>\<open>+Infinity\<close>; the call of the function of
  \<^verbatim>\<open>(()=>{while(x>5){}return 1})()\<close> at 6 does not return, so neither does \<^verbatim>\<open>evaluate\<close>; and
  evaluating the function of \<^verbatim>\<open>y=x\<close> at 6 sets the global variable \<^verbatim>\<open>y\<close>, unset before, to 6.
\<close>
theorem C1_counterexample:
  "compiles_in ''1/x'' \<and>
   value_of (evaluate_in (compiled_in ''1/x'') pzero no_globals) = Some (Number PInf) \<and>
   compiles_in ''(()=>{while(x>5){}return 1})()'' \<and>
   Option.is_none (evaluate_in (compiled_in ''(()=>{while(x>5){}return 1})()'') (num 6) no_globals) \<and>
   compiles_in ''y=x'' \<and> no_globals ''y'' = None \<and>
   global_after (evaluate_in (compiled_in ''y=x'') (num 6) no_globals) ''y'' = Some (Number (num 6))"
  by code_simp

text \<open>
  Claim C1, as amended. For every function and every number \<^verbatim>\<open>x\<close>, \<^verbatim>\<open>evaluate\<close> returns
  exactly when the call of the function returns or throws: when the call does not return,
  neither does \<^verbatim>\<open>evaluate\<close>; when it does, \<^verbatim>\<open>evaluate\<close> returns, without throwing, a value of
  type number, which is a finite number, NaN or a signed infinity, and the global
  variables are those that the call has left: \<^verbatim>\<open>evaluate\<close> changes none itself.
\<close>
theorem C1_evaluate:
  "(func x g = Forever \<longrightarrow> evaluate_in func x g = None) \<and>
   (\<forall>out g'. func x g = Ends out g' \<longrightarrow>
      (\<exists>n. evaluate_in func x g = Some (Number n, g')
           \<and> (isFinite n \<or> isNaN n \<or> n = PInf \<or> n = NInf)))"
proof (intro conjI allI impI)
  assume "func x g = Forever"
  then show "evaluate_in func x g = None" by (simp add: evaluate_in_def)
next
  fix out g' assume e: "func x g = Ends out g'"
  obtain n where n: "evaluate_in func x g = Some (Number n, g')"
    using e by (cases out; cases "case out of Returns v \<Rightarrow> v | Throws \<Rightarrow> Other")
      (auto simp: evaluate_in_def)
  have "isFinite n \<or> isNaN n \<or> n = PInf \<or> n = NInf" by (cases n) auto
  with n show "\<exists>n. evaluate_in func x g = Some (Number n, g')
           \<and> (isFinite n \<or> isNaN n \<or> n = PInf \<or> n = NInf)" by blast
qed

text \<open>The amended claim C1 at the function compiled from \<^verbatim>\<open>1/x\<close> and the argument 0.\<close>
theorem C1_witness:
  "\<exists>n g'. evaluate_in (compiled_in ''1/x'') pzero no_globals = Some (Number n, g')
      \<and> (isFinite n \<or> isNaN n \<or> n = PInf \<or> n = NInf)"
proof -
  have "case compiled_in ''1/x'' pzero no_globals of Ends out g' \<Rightarrow> True | Forever \<Rightarrow> False"
    by code_simp
  then obtain out g' where "compiled_in ''1/x'' pzero no_globals = Ends out g'"
    by (cases "compiled_in ''1/x'' pzero no_globals") auto
  then show ?thesis using C1_evaluate[of "compiled_in ''1/x''" pzero no_globals] by blast
qed


text \<open>
  Claim C9. The vertical-line test over the sample points -5, -2, 0, 1, 3, 5 succeeds for
  every function: \<^verbatim>\<open>evaluate\<close> returns a value of type number at each of them, so the branch
  that returns \<^verbatim>\<open>false\<close> is never taken.
\<close>
theorem C9_isFunction: "isFunction func = True"
  by (simp add: isFunction_def isFunction_loop_True)

text \<open>Claim C9 at the function compiled from \<^verbatim>\<open>1/x\<close>.\<close>
theorem C9_witness: "isFunction (compiled ''1/x'') = True"
  using C9_isFunction[of "compiled ''1/x''"] .

text \<open>
  Claim C2 at an argument that contains parentheses. The group \<^verbatim>\<open>[^)]+\<close> ends at the first
  closing parenthesis, so \<^verbatim>\<open>csc(sin(x)+1)\<close> is rewritten to the reciprocal of
  \<^verbatim>\<open>sin(sin(x))\<close> plus one, while the text with \<^verbatim>\<open>csc(A)\<close> replaced by \<^verbatim>\<open>1/sin(A)\<close> is
  rewritten to the reciprocal of \<^verbatim>\<open>sin(sin(x)+1)\<close>.
\<close>
theorem C2_nested_argument:
  "normalize ''csc(sin(x)+1)'' = ''(1/Math.sin(Math.sin(x))+1)'' \<and>
   normalize ''1/sin(sin(x)+1)'' = ''1/Math.sin(Math.sin(x)+1)''"
  by code_simp

subsection \<open>A constant after a digit\<close>

lemma constant_after_word:
  "is_word c \<Longrightarrow> name \<noteq> [] \<Longrightarrow> is_word (hd name) \<Longrightarrow> m_constant name v (Some c) s = None"
proof (cases "starts_with name s")
  case False
  then show ?thesis by (simp add: m_constant_def)
next
  case True
  assume w: "is_word c" and n: "name \<noteq> []" and h: "is_word (hd name)"
  from n True obtain a rest where "s = a # rest" "a = hd name"
    by (cases name; cases s) auto
  then have "\<not> boundary (Some c) (next_char s)"
    using w h by (simp add: boundary_def word_opt_def next_char_def)
  then show ?thesis by (simp add: m_constant_def)
qed

lemma digit_word: "is_digit d \<Longrightarrow> is_word d"
  by (simp add: is_word_def)

lemma digit_not_letter: "is_digit d \<Longrightarrow> d \<noteq> CHR ''p'' \<and> d \<noteq> CHR ''e''"
  by (auto simp: is_digit_def)

lemma pi_after_digit:
  assumes "is_digit d"
  shows "replace_from (m_constant ''pi'' v) prev 0 (d # ''pi'' @ rest)
       = d # ''pi'' @ replace_from (m_constant ''pi'' v) (Some CHR ''i'') 0 rest"
proof -
  have 1: "m_constant ''pi'' v prev (d # ''pi'' @ rest) = None"
    using digit_not_letter[OF assms] by (auto simp: m_constant_def)
  have 2: "m_constant ''pi'' v (Some d) (''pi'' @ rest) = None"
    using constant_after_word[of d "''pi''" v "''pi'' @ rest"] digit_word[OF assms]
    by (simp add: is_word_def is_lower_def)
  have 3: "m_constant ''pi'' v (Some CHR ''p'') (''i'' @ rest) = None"
    by (simp add: m_constant_def)
  show ?thesis using 1 2 3 by simp
qed

lemma e_after_digit:
  assumes "is_digit d"
  shows "replace_from (m_constant ''e'' v) prev 0 (d # ''e'' @ rest)
       = d # ''e'' @ replace_from (m_constant ''e'' v) (Some CHR ''e'') 0 rest"
proof -
  have 1: "m_constant ''e'' v prev (d # ''e'' @ rest) = None"
    using digit_not_letter[OF assms] by (auto simp: m_constant_def)
  have 2: "m_constant ''e'' v (Some d) (''e'' @ rest) = None"
    using constant_after_word[of d "''e''" v "''e'' @ rest"] digit_word[OF assms]
    by (simp add: is_word_def is_lower_def)
  show ?thesis using 1 2 by simp
qed

lemma reads_unbound_throws: "reads_unbound ex \<Longrightarrow> eval_expr lm ex x = None"
  by (induction ex) (auto split: option.splits)

lemma spliced_body: "spliced (function_body e) = e"
  by (simp add: spliced_def function_body_def)

lemma hasValidResult_NaN:
  "\<forall>t \<in> set ts. func t = Returns (Number NaN) \<Longrightarrow> \<not> hasValidResult func ts"
  by (induction ts) auto

lemma unbound_fails:
  assumes "\<not> (s = [] \<or> trim s = [])" "paren_scan 0 (normalize s)"
    and "fragment_expr (normalize s) = Accept ex" "reads_unbound ex" "provided (\<lambda>g. None) ex"
  shows "compile_error s = Some NoValidNumericResults"
    and "new_Function ''x'' (function_body (normalize s)) = Some (run_body (\<lambda>g. None) ex)"
    and "run_body (\<lambda>g. None) ex x = Returns (Number NaN)"
proof -
  have c: "compile_fragment (\<lambda>g. None) (normalize s) = Accept (run_body (\<lambda>g. None) ex)"
    using assms(3,5) by (auto simp: compile_fragment_def fragment_expr_def split: option.splits)
  show nf: "new_Function ''x'' (function_body (normalize s)) = Some (run_body (\<lambda>g. None) ex)"
    by (simp add: new_Function_def new_Function_with_def spliced_body c)
  show r: "run_body (\<lambda>g. None) ex x = Returns (Number NaN)" for x
    using reads_unbound_throws[OF assms(4)] by (simp add: run_body_def)
  have "\<not> hasValidResult (run_body (\<lambda>g. None) ex) testValues"
    by (rule hasValidResult_NaN) (simp add: r)
  then show "compile_error s = Some NoValidNumericResults"
    using assms(1,2) nf by (simp add: compile_error_def parse_def Let_def)
qed

text \<open>
  Claim C10 says that every input with a digit before a constant name fails with "Expression
  does not produce valid numeric results". In \<^verbatim>\<open>(2pi\<close> the constant is not substituted
  either, but \<^verbatim>\<open>parse\<close> fails earlier, with "Mismatched parentheses".
\<close>
theorem C10_counterexample:
  "normalize ''(2pi'' = ''(2*pi'' \<and> compile_error ''(2pi'' = Some MismatchedParentheses"
  by code_simp

text \<open>
  Claim C10, as amended. A constant name directly after a digit is never substituted: no
  word boundary precedes it, so the expression of the constant does not match there, and
  the replacement copies the digit and the name and goes on behind them. Whenever the
  rewritten text is an arithmetic expression that still reads such a name, and the text
  passes the checks before, the compiled function returns NaN at every argument, so at every
  probe, and \<^verbatim>\<open>parse\<close> fails with "Expression does not produce valid numeric results". This
  is so for each digit followed by \<^verbatim>\<open>pi\<close> or by \<^verbatim>\<open>e\<close>, in particular for \<^verbatim>\<open>2pi\<close>, which is
  rewritten to \<^verbatim>\<open>2*pi\<close>. The text \<^verbatim>\<open>2*pi\<close> has the constant substituted and compiles.
\<close>
theorem C10_digit_before_constant:
  "(is_digit d \<longrightarrow>
      m_constant ''pi'' v (Some d) s = None \<and> m_constant ''e'' v (Some d) s = None \<and>
      replace_from (m_constant ''pi'' v) prev 0 (d # ''pi'' @ rest)
        = d # ''pi'' @ replace_from (m_constant ''pi'' v) (Some CHR ''i'') 0 rest \<and>
      replace_from (m_constant ''e'' v) prev 0 (d # ''e'' @ rest)
        = d # ''e'' @ replace_from (m_constant ''e'' v) (Some CHR ''e'') 0 rest) \<and>
   (\<not> (t = [] \<or> trim t = []) \<and> paren_scan 0 (normalize t)
      \<and> fragment_expr (normalize t) = Accept ex \<and> reads_unbound ex \<and> provided (\<lambda>g. None) ex \<longrightarrow>
      new_Function ''x'' (function_body (normalize t)) = Some (run_body (\<lambda>g. None) ex) \<and>
      (\<forall>x. run_body (\<lambda>g. None) ex x = Returns (Number NaN)) \<and>
      compile_error t = Some NoValidNumericResults) \<and>
   list_all (\<lambda>c. normalize ([c] @ ''pi'') = [c] @ ''*pi''
               \<and> compile_error ([c] @ ''pi'') = Some NoValidNumericResults
               \<and> normalize ([c] @ ''e'') = [c] @ ''*e''
               \<and> compile_error ([c] @ ''e'') = Some NoValidNumericResults) ''0123456789'' \<and>
   normalize ''2pi'' = ''2*pi'' \<and>
   (case new_Function ''x'' (function_body (normalize ''2pi'')) of
      None \<Rightarrow> False
    | Some func \<Rightarrow> list_all (\<lambda>t. func t = Returns (Number NaN)) testValues) \<and>
   compile_error ''2pi'' = Some NoValidNumericResults \<and>
   normalize ''2*pi'' = ''2*3.141592653589793'' \<and>
   compile_error ''2*pi'' = None"
proof -
  have a: "m_constant ''pi'' v (Some d) s = None \<and> m_constant ''e'' v (Some d) s = None"
    if "is_digit d"
    using constant_after_word[of d "''pi''" v s] constant_after_word[of d "''e''" v s]
      digit_word[OF that]
    by (simp add: is_word_def is_lower_def)
  have b: "list_all (\<lambda>c. normalize ([c] @ ''pi'') = [c] @ ''*pi''
               \<and> compile_error ([c] @ ''pi'') = Some NoValidNumericResults
               \<and> normalize ([c] @ ''e'') = [c] @ ''*e''
               \<and> compile_error ([c] @ ''e'') = Some NoValidNumericResults) ''0123456789''"
    by code_simp
  have c: "normalize ''2pi'' = ''2*pi'' \<and>
   (case new_Function ''x'' (function_body (normalize ''2pi'')) of
      None \<Rightarrow> False
    | Some func \<Rightarrow> list_all (\<lambda>t. func t = Returns (Number NaN)) testValues) \<and>
   compile_error ''2pi'' = Some NoValidNumericResults \<and>
   normalize ''2*pi'' = ''2*3.141592653589793'' \<and>
   compile_error ''2*pi'' = None"
    by code_simp
  show ?thesis
    using a pi_after_digit[of d v prev rest] e_after_digit[of d v prev rest]
      unbound_fails[of t ex] b c
    by blast
qed

text \<open>
  The amended claim C10 at the text \<^verbatim>\<open>2pi+1\<close>: the digit 2 precedes \<^verbatim>\<open>pi\<close>, the replacement
  of the constant leaves the text as it is, and the rewritten text \<^verbatim>\<open>2*pi+1\<close> reads \<^verbatim>\<open>pi\<close>.
\<close>
theorem C10_witness:
  "is_digit CHR ''2'' \<and>
   replace_from (m_constant ''pi'' ''3.141592653589793'') None 0 ''2pi+1'' = ''2pi+1'' \<and>
   fragment_expr (normalize ''2pi+1'') = Accept (Add (Mul (Lit (num 2)) (Free ''pi'')) (Lit (num 1))) \<and>
   compile_error ''2pi+1'' = Some NoValidNumericResults"
proof -
  have d: "is_digit CHR ''2''" by code_simp
  have f: "\<not> (''2pi+1'' = [] \<or> trim ''2pi+1'' = []) \<and> paren_scan 0 (normalize ''2pi+1'') \<and>
     fragment_expr (normalize ''2pi+1'')
       = Accept (Add (Mul (Lit (dec 2 0)) (Free ''pi'')) (Lit (dec 1 0))) \<and>
     reads_unbound (Add (Mul (Lit (dec 2 0)) (Free ''pi'')) (Lit (dec 1 0))) \<and>
     provided (\<lambda>g. None) (Add (Mul (Lit (dec 2 0)) (Free ''pi'')) (Lit (dec 1 0))) \<and>
     dec 2 0 = num 2 \<and> dec 1 0 = num 1 \<and>
     replace_from (m_constant ''pi'' ''3.141592653589793'') (Some CHR ''i'') 0 ''+1'' = ''+1''"
    by code_simp
  show ?thesis
    using d f
      C10_digit_before_constant[of "CHR ''2''" "''3.141592653589793''" "''pi+1''" None "''+1''"
        "''2pi+1''" "Add (Mul (Lit (dec 2 0)) (Free ''pi'')) (Lit (dec 1 0))"]
    by simp
qed


subsection \<open>Symmetry\<close>

lemma js_neg_neg_add: "js_add a (js_neg (js_neg b)) = js_add a b"
  by (cases a; cases b) (auto simp: add_fin_def pzero_def)

lemma js_sub_neg: "js_sub a (js_neg b) = js_add a b"
  by (simp add: js_sub_def js_neg_neg_add)

lemma isNaN_not_finite: "isNaN n \<Longrightarrow> \<not> isFinite n"
  by (cases n) auto

lemma symmetry_step_valid:
  "\<not> js_eq x (num 0) \<Longrightarrow> symmetry_step func c x =
     (if valid_pair func x
      then \<lparr>oddCount = oddCount c + (if odd_pair func x then 1 else 0),
            evenCount = evenCount c + (if even_pair func x then 1 else 0),
            totalTests = totalTests c + 1\<rparr>
      else c)"
  using isNaN_not_finite
  by (auto simp: symmetry_step_def valid_pair_def odd_pair_def even_pair_def js_sub_neg Let_def)

lemma symmetry_fold:
  "list_all (\<lambda>x. \<not> js_eq x (num 0)) xs \<Longrightarrow>
   foldl (symmetry_step func) c xs =
     \<lparr>oddCount = oddCount c + length (filter (odd_pair func) (filter (valid_pair func) xs)),
      evenCount = evenCount c + length (filter (even_pair func) (filter (valid_pair func) xs)),
      totalTests = totalTests c + length (filter (valid_pair func) xs)\<rparr>"
proof (induction xs arbitrary: c)
  case Nil
  then show ?case by simp
next
  case (Cons x xs)
  then have nz: "\<not> js_eq x (num 0)" and rest: "list_all (\<lambda>x. \<not> js_eq x (num 0)) xs"
    by simp_all
  show ?case
    unfolding foldl_Cons symmetry_step_valid[OF nz] Cons.IH[OF rest]
    by simp
qed

lemma points_nonzero: "list_all (\<lambda>x. \<not> js_eq x (num 0)) symmetry_points"
  by code_simp

lemma ratio_table:
  "list_all (\<lambda>n. list_all (\<lambda>k. js_ge (js_div (num (int k)) (num (int n))) (dec 8 1) = (4 * n \<le> 5 * k))
      [0..<Suc n]) [1..<9]"
  by code_simp

lemma ratio_threshold:
  assumes "0 < n" "n \<le> 8" "k \<le> n"
  shows "js_ge (js_div (num (int k)) (num (int n))) (dec 8 1) = (4 * n \<le> 5 * k)"
proof -
  have "n \<in> set [1..<9]" using assms by auto
  then have "list_all (\<lambda>k. js_ge (js_div (num (int k)) (num (int n))) (dec 8 1) = (4 * n \<le> 5 * k))
      [0..<Suc n]"
    using ratio_table unfolding list_all_iff by blast
  moreover have "k \<in> set [0..<Suc n]" using assms by auto
  ultimately show ?thesis unfolding list_all_iff by blast
qed

lemma checkSymmetry_counts:
  "isEven (checkSymmetry func) =
     (valid_pairs func \<noteq> []
      \<and> 4 * length (valid_pairs func) \<le> 5 * length (filter (even_pair func) (valid_pairs func)))"
  "isOdd (checkSymmetry func) =
     (valid_pairs func \<noteq> []
      \<and> 4 * length (valid_pairs func) \<le> 5 * length (filter (odd_pair func) (valid_pairs func)))"
proof -
  let ?v = "valid_pairs func"
  have len: "length ?v \<le> 8"
  proof -
    have "length ?v \<le> length symmetry_points" unfolding valid_pairs_def by (rule length_filter_le)
    also have "length symmetry_points = 8" by (simp add: symmetry_points_def)
    finally show ?thesis .
  qed
  have e: "length (filter (even_pair func) ?v) \<le> length ?v"
    and o: "length (filter (odd_pair func) ?v) \<le> length ?v"
    by (rule length_filter_le)+
  have fold: "foldl (symmetry_step func) \<lparr>oddCount = 0, evenCount = 0, totalTests = 0\<rparr> symmetry_points
     = \<lparr>oddCount = length (filter (odd_pair func) ?v),
        evenCount = length (filter (even_pair func) ?v), totalTests = length ?v\<rparr>"
    using symmetry_fold[OF points_nonzero, of func "\<lparr>oddCount = 0, evenCount = 0, totalTests = 0\<rparr>"]
    by (simp add: valid_pairs_def)
  show "isEven (checkSymmetry func) =
     (?v \<noteq> [] \<and> 4 * length ?v \<le> 5 * length (filter (even_pair func) ?v))"
    unfolding checkSymmetry_def fold Let_def
    using ratio_threshold[OF _ len e] by (cases "?v = []") auto
  show "isOdd (checkSymmetry func) =
     (?v \<noteq> [] \<and> 4 * length ?v \<le> 5 * length (filter (odd_pair func) ?v))"
    unfolding checkSymmetry_def fold Let_def
    using ratio_threshold[OF _ len o] by (cases "?v = []") auto
qed

lemma sym_x2: "compile_error ''x^2'' = None \<and> isEven (checkSymmetry (compiled ''x^2'')) \<and> \<not> isOdd (checkSymmetry (compiled ''x^2''))"
  by code_simp
lemma sym_x3: "compile_error ''x^3'' = None \<and> \<not> isEven (checkSymmetry (compiled ''x^3'')) \<and> isOdd (checkSymmetry (compiled ''x^3''))"
  by code_simp
lemma sym_x1: "compile_error ''x+1'' = None \<and> \<not> isEven (checkSymmetry (compiled ''x+1'')) \<and> \<not> isOdd (checkSymmetry (compiled ''x+1''))"
  by code_simp

subsection \<open>Injectivity\<close>


lemma clear_of_Nil: "clear_of acc []"
  by (simp add: clear_of_def)

lemma clear_of_Cons:
  "clear_of acc (y # ys) \<longleftrightarrow> (\<forall>p \<in> set acc. \<not> near y p) \<and> clear_of (acc @ [y]) ys"
proof
  assume a: "clear_of acc (y # ys)"
  have 1: "\<forall>p \<in> set acc. \<not> near y p"
    using a unfolding clear_of_def by force
  have 2: "clear_of (acc @ [y]) ys"
    unfolding clear_of_def
  proof (intro allI impI ballI)
    fix i p assume i: "i < length ys" and p: "p \<in> set (acc @ [y]) \<union> set (take i ys)"
    have "Suc i < length (y # ys)" using i by simp
    moreover have "p \<in> set acc \<union> set (take (Suc i) (y # ys))" using p by auto
    ultimately have "\<not> near ((y # ys) ! Suc i) p" using a unfolding clear_of_def by blast
    then show "\<not> near (ys ! i) p" by simp
  qed
  from 1 2 show "(\<forall>p \<in> set acc. \<not> near y p) \<and> clear_of (acc @ [y]) ys" by simp
next
  assume a: "(\<forall>p \<in> set acc. \<not> near y p) \<and> clear_of (acc @ [y]) ys"
  show "clear_of acc (y # ys)"
    unfolding clear_of_def
  proof (intro allI impI ballI)
    fix i p assume i: "i < length (y # ys)" and p: "p \<in> set acc \<union> set (take i (y # ys))"
    show "\<not> near ((y # ys) ! i) p"
    proof (cases i)
      case 0
      then show ?thesis using a p by simp
    next
      case (Suc j)
      then have "j < length ys" using i by simp
      moreover have "p \<in> set (acc @ [y]) \<union> set (take j ys)" using p Suc by auto
      ultimately have "\<not> near (ys ! j) p" using a unfolding clear_of_def by blast
      then show ?thesis using Suc by simp
    qed
  qed
qed

lemma one_to_one_loop_spec:
  "one_to_one_loop func xs acc =
     (clear_of acc (finite_values func xs) \<and> 5 < length acc + length (finite_values func xs))"
proof (induction xs arbitrary: acc)
  case Nil
  then show ?case by (simp add: finite_values_def clear_of_Nil)
next
  case (Cons x xs)
  let ?y = "to_num (evaluate func x)"
  show ?case
  proof (cases "isFinite ?y")
    case False
    then have "finite_values func (x # xs) = finite_values func xs"
      by (simp add: finite_values_def)
    then show ?thesis using False Cons.IH[of acc] by (simp add: Let_def)
  next
    case True
    then have fv: "finite_values func (x # xs) = ?y # finite_values func xs"
      by (simp add: finite_values_def)
    have nn: "\<not> isNaN ?y" using True isNaN_not_finite by blast
    have ex: "list_ex (\<lambda>prevY. js_lt (Math_abs (js_sub ?y prevY)) (dec 1 8)) acc
        \<longleftrightarrow> \<not> (\<forall>p \<in> set acc. \<not> near ?y p)"
      by (simp add: list_ex_iff near_def)
    show ?thesis
      unfolding fv clear_of_Cons
      using True nn ex Cons.IH[of "acc @ [?y]"] by (auto simp: Let_def)
  qed
qed

lemma clear_of_empty: "clear_of [] ys = no_near_duplicate ys"
proof -
  have "set (take i ys) = (!) ys ` {0..<i}" if "i < length ys" for i
    using that nth_image[of i ys] by simp
  then show ?thesis
    unfolding clear_of_def no_near_duplicate_def by auto
qed

lemma sweep_injectivity: "sweep (num (- 5)) (num 5) (dec 5 1) = Some injectivity_points"
  by code_simp

lemma isOneToOne_spec:
  "isOneToOne func = Some (no_near_duplicate (finite_values func injectivity_points)
                           \<and> 6 \<le> length (finite_values func injectivity_points))"
  unfolding isOneToOne_def sweep_injectivity
  by (auto simp: one_to_one_loop_spec clear_of_empty)

lemma inj_x: "compile_error ''x'' = None \<and> isOneToOne (compiled ''x'') = Some True"
  by code_simp
lemma inj_x2: "compile_error ''x^2'' = None \<and> isOneToOne (compiled ''x^2'') = Some False"
  by code_simp

subsection \<open>Domain\<close>

lemma starts_with_Nil: "starts_with p [] = (p = [])"
  by (cases p) auto

lemma includes_matches: "includes_str s p = matches_somewhere (starts_with p) s"
  by (induction s) (auto simp: starts_with_Nil)

lemma matches_mono:
  "(\<And>u. m u \<Longrightarrow> m' u) \<Longrightarrow> matches_somewhere m s \<Longrightarrow> matches_somewhere m' s"
  by (induction s) auto

lemma matches_or:
  "matches_somewhere (\<lambda>u. m u \<or> m' u) s = (matches_somewhere m s \<or> matches_somewhere m' s)"
  by (induction s) auto

lemma starts_with_append: "starts_with (p @ q) u \<Longrightarrow> starts_with p u"
  by (induction p u rule: starts_with.induct) auto

lemma includes_prefix: "includes_str s (p @ q) \<Longrightarrow> includes_str s p"
  unfolding includes_matches using matches_mono[of "starts_with (p @ q)" "starts_with p" s]
  by (blast intro: starts_with_append)

lemma call_includes: "matches_somewhere (call_with_x name) s \<Longrightarrow> includes_str s (name @ ''('')"
  unfolding includes_matches
  by (rule matches_mono[of "call_with_x name"]) (auto simp: call_with_x_def)

lemma includes_tail: "includes_str s (c # p) \<Longrightarrow> includes_str s p"
proof (induction s)
  case Nil
  then show ?case by simp
next
  case (Cons a s)
  show ?case
  proof (cases "starts_with (c # p) (a # s)")
    case True
    then have "starts_with p s" by simp
    then have "includes_str s p" by (cases s) (auto simp: starts_with_Nil)
    then show ?thesis by simp
  next
    case False
    from Cons.prems have "starts_with (c # p) (a # s) \<or> includes_str s (c # p)"
      by (simp only: includes_str.simps)
    with False have "includes_str s (c # p)" by blast
    then show ?thesis using Cons.IH by simp
  qed
qed

lemma sqrt_pattern_eq:
  "sqrt_pattern t =
     (if includes_str t ''sqrt(x)'' then Some XGe0
      else if matches_somewhere (call_with_x ''sqrt'') t then Some UnderRootGe0 else None)"
  using includes_prefix[of t "''sqrt(''" "''x)''"] call_includes[of "''sqrt''" t]
  by (auto simp: sqrt_pattern_def includes_matches[symmetric])

lemma log_pattern_eq:
  "log_pattern t =
     (if includes_str t ''log(x)'' \<or> includes_str t ''ln(x)'' then Some XGt0
      else if matches_somewhere (call_with_x ''log'') t \<or> matches_somewhere (call_with_x ''ln'') t
      then Some InsideLogGt0 else None)"
  using includes_prefix[of t "''log(''" "''x)''"] includes_prefix[of t "''ln(''" "''x)''"]
    call_includes[of "''log''" t] call_includes[of "''ln''" t]
  by (auto simp: log_pattern_def matches_or includes_matches[symmetric])

lemma domain_sweep_facts:
  "map_option (\<lambda>xs. (length xs, take 6 xs)) (sweep (num (- 20)) (num 20) (dec 1 1))
     = Some (400, domain_head)"
  by code_simp

lemma domain_sweep_length: "map_option length (sweep (num (- 20)) (num 20) (dec 1 1)) = Some 400"
  using domain_sweep_facts by (cases "sweep (num (- 20)) (num 20) (dec 1 1)") auto

lemma analyzeDomain_answer:
  "sweep (num (- 20)) (num 20) (dec 1 1) = Some xs \<Longrightarrow>
   analyzeDomain func expression
     = Some (domain_answer (toLowerCase expression) (foldl (domain_step func) [] xs))"
  using includes_tail[of "toLowerCase expression" "CHR ''1''" "''/x''"]
  by (auto simp: analyzeDomain_def sqrt_pattern_eq log_pattern_eq domain_answer_def
      domain_report_def Let_def)

lemma domain_step_finite:
  "isFinite (to_num (evaluate func x)) \<Longrightarrow> domain_step func r x = r"
  by (simp add: domain_step_def)

lemma domain_fold_finite:
  "\<forall>x \<in> set xs. isFinite (to_num (evaluate func x)) \<Longrightarrow> foldl (domain_step func) r xs = r"
  by (induction xs arbitrary: r) (simp_all add: domain_step_finite)

lemma dom_x: "compile_error ''x'' = None \<and> analyzeDomain (compiled ''x'') ''x'' = Some AllRealNumbers"
  by code_simp

lemma dom_facts:
  "domain_answer (toLowerCase ''sqrt(x)'') r = XGe0"
  "domain_answer (toLowerCase ''1/x'') r = XNe0"
  "domain_answer (toLowerCase ''ln(x)'') r = XGt0"
proof -
  have "includes_str (toLowerCase ''sqrt(x)'') ''sqrt(x)''" by code_simp
  then show "domain_answer (toLowerCase ''sqrt(x)'') r = XGe0" by (simp add: domain_answer_def)
  have "\<not> includes_str (toLowerCase ''1/x'') ''sqrt(x)'' \<and>
    \<not> matches_somewhere (call_with_x ''sqrt'') (toLowerCase ''1/x'') \<and>
    \<not> includes_str (toLowerCase ''1/x'') ''log(x)'' \<and> \<not> includes_str (toLowerCase ''1/x'') ''ln(x)'' \<and>
    \<not> matches_somewhere (call_with_x ''log'') (toLowerCase ''1/x'') \<and>
    \<not> matches_somewhere (call_with_x ''ln'') (toLowerCase ''1/x'') \<and>
    includes_str (toLowerCase ''1/x'') ''/x''" by code_simp
  then show "domain_answer (toLowerCase ''1/x'') r = XNe0" by (simp add: domain_answer_def)
  have "\<not> includes_str (toLowerCase ''ln(x)'') ''sqrt(x)'' \<and>
    \<not> matches_somewhere (call_with_x ''sqrt'') (toLowerCase ''ln(x)'') \<and>
    includes_str (toLowerCase ''ln(x)'') ''ln(x)''" by code_simp
  then show "domain_answer (toLowerCase ''ln(x)'') r = XGt0" by (simp add: domain_answer_def)
qed

lemma domain_fold_exclusions:
  "foldl (domain_step func) kept xs = keep_first kept (map one_decimal (non_finite_points func xs))"
  by (induction xs arbitrary: kept)
    (simp_all add: domain_step_def non_finite_points_def one_decimal_def within_005_def
      list_ex_iff Let_def)

lemma keep_first_length: "length kept \<le> length (keep_first kept cs)"
proof (induction cs arbitrary: kept)
  case Nil
  then show ?case by simp
next
  case (Cons c cs)
  show ?case using Cons.IH[of kept] Cons.IH[of "kept @ [c]"] by auto
qed

lemma keep_first_append: "keep_first kept (cs @ ds) = keep_first (keep_first kept cs) ds"
  by (induction cs arbitrary: kept) simp_all

lemma keep_first_subset: "set (keep_first kept cs) \<subseteq> set kept \<union> set cs"
proof (induction cs arbitrary: kept)
  case Nil
  then show ?case by simp
next
  case (Cons c cs)
  show ?case using Cons.IH[of kept] Cons.IH[of "kept @ [c]"] by auto
qed

lemma keep_first_keeps: "set kept \<subseteq> set (keep_first kept cs)"
proof (induction cs arbitrary: kept)
  case Nil
  then show ?case by simp
next
  case (Cons c cs)
  show ?case using Cons.IH[of kept] Cons.IH[of "kept @ [c]"] by auto
qed

lemma keep_first_covers:
  "c \<in> set cs \<Longrightarrow> \<exists>r \<in> set (keep_first kept cs). r = c \<or> within_005 r c"
proof (induction cs arbitrary: kept)
  case Nil
  then show ?case by simp
next
  case (Cons d cs)
  show ?case
  proof (cases "c = d")
    case True
    show ?thesis
    proof (cases "\<exists>r \<in> set kept. within_005 r d")
      case True
      then obtain r where "r \<in> set kept" "within_005 r d" by blast
      then show ?thesis using keep_first_keeps[of kept cs] \<open>c = d\<close> True by auto
    next
      case False
      have "d \<in> set (keep_first (kept @ [d]) cs)" using keep_first_keeps[of "kept @ [d]" cs] by auto
      then show ?thesis using False \<open>c = d\<close> by auto
    qed
  next
    case False
    then have "c \<in> set cs" using Cons.prems by simp
    then show ?thesis using Cons.IH[of kept] Cons.IH[of "kept @ [d]"] by auto
  qed
qed

lemma apart_snoc:
  "apart kept \<Longrightarrow> \<not> (\<exists>r \<in> set kept. within_005 r c) \<Longrightarrow> apart (kept @ [c])"
  unfolding apart_def
proof (intro allI impI)
  fix i j assume a: "\<forall>i<length kept. \<forall>j<i. \<not> within_005 (kept ! j) (kept ! i)"
    and b: "\<not> (\<exists>r \<in> set kept. within_005 r c)" and i: "i < length (kept @ [c])" and j: "j < i"
  show "\<not> within_005 ((kept @ [c]) ! j) ((kept @ [c]) ! i)"
  proof (cases "i < length kept")
    case True
    then show ?thesis using a j by (simp add: nth_append)
  next
    case False
    then have ie: "i = length kept" using i by simp
    then have "kept ! j \<in> set kept" using j by simp
    then show ?thesis using b ie j by (auto simp: nth_append)
  qed
qed

lemma keep_first_apart: "apart kept \<Longrightarrow> apart (keep_first kept cs)"
proof (induction cs arbitrary: kept)
  case Nil
  then show ?case by simp
next
  case (Cons c cs)
  show ?case using Cons.IH[of kept] Cons.IH[of "kept @ [c]"] Cons.prems apart_snoc[of kept c]
    by auto
qed

lemma exclusions_rounded:
  "set (exclusions func xs) \<subseteq> one_decimal ` set (non_finite_points func xs)"
  using keep_first_subset[of "[]" "map one_decimal (non_finite_points func xs)"]
  by (simp add: exclusions_def)

lemma exclusions_cover:
  "\<forall>x \<in> set (non_finite_points func xs).
      \<exists>r \<in> set (exclusions func xs). r = one_decimal x \<or> within_005 r (one_decimal x)"
proof
  fix x assume "x \<in> set (non_finite_points func xs)"
  then have "one_decimal x \<in> set (map one_decimal (non_finite_points func xs))" by simp
  then show "\<exists>r \<in> set (exclusions func xs). r = one_decimal x \<or> within_005 r (one_decimal x)"
    unfolding exclusions_def by (rule keep_first_covers)
qed

lemma exclusions_apart: "apart (exclusions func xs)"
proof -
  have "apart []" by (simp add: apart_def)
  then show ?thesis unfolding exclusions_def by (rule keep_first_apart)
qed


lemma domain_step_length: "length r \<le> length (foldl (domain_step func) r xs)"
  unfolding domain_fold_exclusions by (rule keep_first_length)

lemma power_head:
  "compile_error ''(((x^4)^4)^4)^4'' = None \<and>
   length (foldl (domain_step (compiled ''(((x^4)^4)^4)^4'')) [] domain_head) = 6"
  by code_simp

lemma power_text:
  "domain_answer (toLowerCase ''(((x^4)^4)^4)^4'') r =
     (if r = [] then AllRealNumbers else if length r \<le> 5 then XNeList r
      else MultipleRestrictions)"
proof -
  have "\<not> includes_str (toLowerCase ''(((x^4)^4)^4)^4'') ''sqrt(x)'' \<and>
    \<not> matches_somewhere (call_with_x ''sqrt'') (toLowerCase ''(((x^4)^4)^4)^4'') \<and>
    \<not> includes_str (toLowerCase ''(((x^4)^4)^4)^4'') ''log(x)'' \<and>
    \<not> includes_str (toLowerCase ''(((x^4)^4)^4)^4'') ''ln(x)'' \<and>
    \<not> matches_somewhere (call_with_x ''log'') (toLowerCase ''(((x^4)^4)^4)^4'') \<and>
    \<not> matches_somewhere (call_with_x ''ln'') (toLowerCase ''(((x^4)^4)^4)^4'') \<and>
    \<not> includes_str (toLowerCase ''(((x^4)^4)^4)^4'') ''/x'' \<and>
    \<not> includes_str (toLowerCase ''(((x^4)^4)^4)^4'') ''tan(x)'' \<and>
    \<not> includes_str (toLowerCase ''(((x^4)^4)^4)^4'') ''cot(x)'' \<and>
    \<not> includes_str (toLowerCase ''(((x^4)^4)^4)^4'') ''sec(x)'' \<and>
    \<not> includes_str (toLowerCase ''(((x^4)^4)^4)^4'') ''csc(x)''" by code_simp
  then show ?thesis by (simp add: domain_answer_def)
qed

lemma dom_power:
  "compile_error ''(((x^4)^4)^4)^4'' = None \<and>
   analyzeDomain (compiled ''(((x^4)^4)^4)^4'') ''(((x^4)^4)^4)^4'' = Some MultipleRestrictions"
proof -
  obtain xs where xs: "sweep (num (- 20)) (num 20) (dec 1 1) = Some xs"
    and h: "take 6 xs = domain_head"
    using domain_sweep_facts by (cases "sweep (num (- 20)) (num 20) (dec 1 1)") auto
  let ?f = "compiled ''(((x^4)^4)^4)^4''"
  have "xs = domain_head @ drop 6 xs" using h append_take_drop_id[of 6 xs] by simp
  then have "foldl (domain_step ?f) [] xs
      = foldl (domain_step ?f) (foldl (domain_step ?f) [] domain_head) (drop 6 xs)"
    using foldl_append[of "domain_step ?f" "[]" domain_head "drop 6 xs"] by simp
  then have "6 \<le> length (foldl (domain_step ?f) [] xs)"
    using domain_step_length[of "foldl (domain_step ?f) [] domain_head" ?f "drop 6 xs"] power_head
    by simp
  then show ?thesis
    using analyzeDomain_answer[OF xs, of ?f "''(((x^4)^4)^4)^4''"] power_head power_text
    by auto
qed

lemma dom_texts:
  "analyzeDomain func ''sqrt(x+1)'' = Some UnderRootGe0"
  "analyzeDomain func ''log(2x)'' = Some InsideLogGt0"
  "analyzeDomain func ''tan(x)'' = Some XNeHalfPi"
  "analyzeDomain func ''cot(x)'' = Some XNeHalfPi"
  "analyzeDomain func ''sec(x)'' = Some XNeHalfPi"
  "analyzeDomain func ''csc(x)'' = Some XNeNPi"
  "analyzeDomain func ''sqrt(x)+ln(x)+1/x'' = Some XGe0"
  "analyzeDomain func ''ln(x)/x'' = Some XGt0"
  "analyzeDomain func ''tan(x)/x'' = Some XNe0"
  "analyzeDomain func ''2/X'' = Some XNe0"
  by code_simp+


lemma dom_shifted:
  "compile_error ''0/(x+20)'' = None \<and>
   analyzeDomain (compiled ''0/(x+20)'') ''0/(x+20)'' = Some (XNeList [num (- 20)])"
  by code_simp

lemma analyzeDomain_exclusions:
  "sweep (num (- 20)) (num 20) (dec 1 1) = Some xs \<Longrightarrow>
   analyzeDomain func expression
     = Some (domain_answer (toLowerCase expression) (exclusions func xs))"
  using analyzeDomain_answer[of xs func expression]
  by (simp add: exclusions_def domain_fold_exclusions)

lemma shifted_text:
  "domain_answer (toLowerCase ''0/(x+20)'') r =
     (if r = [] then AllRealNumbers else if length r \<le> 5 then XNeList r
      else MultipleRestrictions)"
proof -
  have "\<not> includes_str (toLowerCase ''0/(x+20)'') ''sqrt(x)'' \<and>
    \<not> matches_somewhere (call_with_x ''sqrt'') (toLowerCase ''0/(x+20)'') \<and>
    \<not> includes_str (toLowerCase ''0/(x+20)'') ''log(x)'' \<and>
    \<not> includes_str (toLowerCase ''0/(x+20)'') ''ln(x)'' \<and>
    \<not> matches_somewhere (call_with_x ''log'') (toLowerCase ''0/(x+20)'') \<and>
    \<not> matches_somewhere (call_with_x ''ln'') (toLowerCase ''0/(x+20)'') \<and>
    \<not> includes_str (toLowerCase ''0/(x+20)'') ''/x'' \<and>
    \<not> includes_str (toLowerCase ''0/(x+20)'') ''tan(x)'' \<and>
    \<not> includes_str (toLowerCase ''0/(x+20)'') ''cot(x)'' \<and>
    \<not> includes_str (toLowerCase ''0/(x+20)'') ''sec(x)'' \<and>
    \<not> includes_str (toLowerCase ''0/(x+20)'') ''csc(x)''" by code_simp
  then show ?thesis by (simp add: domain_answer_def)
qed

text \<open>
  Claim C7. \<^verbatim>\<open>checkSymmetry\<close> samples the 8 points of \<^verbatim>\<open>symmetry_points\<close>; the pairs that
  count are those with two finite values; the function is classified even exactly when
  the pairs with \<open>|f(-x) - f(x)| < 1e-10\<close> are at least 80 percent of them (four fifths,
  in exact arithmetic), odd likewise with \<open>|f(-x) + f(x)| < 1e-10\<close>, and neither when no
  pair is valid. \<^verbatim>\<open>x^2\<close> is even and not odd, \<^verbatim>\<open>x^3\<close> odd and not even, \<^verbatim>\<open>x+1\<close> neither.
\<close>

theorem C7_symmetry:
  "isEven (checkSymmetry func) =
     (valid_pairs func \<noteq> []
      \<and> 4 * length (valid_pairs func) \<le> 5 * length (filter (even_pair func) (valid_pairs func))) \<and>
   isOdd (checkSymmetry func) =
     (valid_pairs func \<noteq> []
      \<and> 4 * length (valid_pairs func) \<le> 5 * length (filter (odd_pair func) (valid_pairs func))) \<and>
   length symmetry_points = 8 \<and>
   compile_error ''x^2'' = None \<and>
   isEven (checkSymmetry (compiled ''x^2'')) \<and> \<not> isOdd (checkSymmetry (compiled ''x^2'')) \<and>
   compile_error ''x^3'' = None \<and>
   \<not> isEven (checkSymmetry (compiled ''x^3'')) \<and> isOdd (checkSymmetry (compiled ''x^3'')) \<and>
   compile_error ''x+1'' = None \<and>
   \<not> isEven (checkSymmetry (compiled ''x+1'')) \<and> \<not> isOdd (checkSymmetry (compiled ''x+1''))"
  using checkSymmetry_counts[of func] sym_x2 sym_x3 sym_x1
  by (simp add: symmetry_points_def)

text \<open>Claim C7 at the function that always throws: no pair is valid, and it is neither.\<close>

theorem C7_witness:
  "valid_pairs (\<lambda>x. Throws) = [] \<and> \<not> isEven (checkSymmetry (\<lambda>x. Throws))
   \<and> \<not> isOdd (checkSymmetry (\<lambda>x. Throws))"
proof -
  have "valid_pairs (\<lambda>x. Throws) = []"
    by (simp add: valid_pairs_def valid_pair_def evaluate_def)
  then show ?thesis using C7_symmetry[of "\<lambda>x. Throws"] by simp
qed

text \<open>
  Claim C8. \<^verbatim>\<open>isOneToOne\<close> samples the 21 points from -5 to 5 in steps of 0.5 and answers
  "one-to-one" exactly when no finite value lies within \<open>1e-8\<close> of an earlier finite value
  and at least 6 values are finite. \<^verbatim>\<open>x\<close> is one-to-one, \<^verbatim>\<open>x^2\<close> is not.
\<close>

theorem C8_injectivity:
  "sweep (num (- 5)) (num 5) (dec 5 1) = Some injectivity_points \<and>
   length injectivity_points = 21 \<and>
   isOneToOne func = Some (no_near_duplicate (finite_values func injectivity_points)
                           \<and> 6 \<le> length (finite_values func injectivity_points)) \<and>
   compile_error ''x'' = None \<and> isOneToOne (compiled ''x'') = Some True \<and>
   compile_error ''x^2'' = None \<and> isOneToOne (compiled ''x^2'') = Some False"
  using sweep_injectivity isOneToOne_spec[of func] inj_x inj_x2
  by (simp add: injectivity_points_def)

text \<open>Claim C8 at the function compiled from \<^verbatim>\<open>x^2\<close>: some value repeats.\<close>

theorem C8_witness:
  "\<not> (no_near_duplicate (finite_values (compiled ''x^2'') injectivity_points)
      \<and> 6 \<le> length (finite_values (compiled ''x^2'') injectivity_points))"
proof -
  have a: "isOneToOne (compiled ''x^2'')
      = Some (no_near_duplicate (finite_values (compiled ''x^2'') injectivity_points)
              \<and> 6 \<le> length (finite_values (compiled ''x^2'') injectivity_points))"
    and b: "isOneToOne (compiled ''x^2'') = Some False"
    using C8_injectivity[of "compiled ''x^2''"] by blast+
  from a b show ?thesis by simp
qed

text \<open>
  Claim C6. \<^verbatim>\<open>analyzeDomain\<close> looks at the text first, in this order: \<^verbatim>\<open>sqrt\<close> of \<^verbatim>\<open>x\<close>, \<^verbatim>\<open>sqrt\<close>
  of an argument that contains \<^verbatim>\<open>x\<close>, \<^verbatim>\<open>log\<close> or \<^verbatim>\<open>ln\<close> likewise, a denominator \<^verbatim>\<open>/x\<close>, then
  \<^verbatim>\<open>tan\<close>, \<^verbatim>\<open>cot\<close>, \<^verbatim>\<open>sec\<close> and \<^verbatim>\<open>csc\<close> of \<^verbatim>\<open>x\<close>. Only when none matches it samples from -20 to
  20 in steps of 0.1 (400 points in binary64 arithmetic) and collects the exclusions: the
  points with a value that is not finite, rounded to one decimal, deduplicated within 0.05.
  So every exclusion is such a rounded point, every such point is an exclusion or lies
  within 0.05 of one, and no exclusion lies within 0.05 of an earlier one. It reports the
  exclusions when there are at most 5, "multiple restrictions" when there are more, "all
  real numbers" when there is none. The answer is "x >= 0" for \<^verbatim>\<open>sqrt(x)\<close>, "x (not equal)
  0" for \<^verbatim>\<open>1/x\<close>, "x > 0" for \<^verbatim>\<open>ln(x)\<close>; the answers for \<^verbatim>\<open>sqrt(x+1)\<close>, \<^verbatim>\<open>log(2x)\<close> and the
  four trigonometric texts are those of their patterns, and where several patterns match
  the first in the order decides. With the functions compiled from them, \<^verbatim>\<open>x\<close> gives "all
  real numbers", \<^verbatim>\<open>0/(x+20)\<close>, whose value at -20 is NaN, gives the one exclusion -20, and
  \<^verbatim>\<open>(((x^4)^4)^4)^4\<close>, which overflows at the first 6 points already, gives "multiple
  restrictions".
\<close>

theorem C6_domain:
  "(\<exists>xs. sweep (num (- 20)) (num 20) (dec 1 1) = Some xs \<and> length xs = 400 \<and>
      analyzeDomain func expression
        = Some (domain_answer (toLowerCase expression) (exclusions func xs)) \<and>
      exclusions func xs = foldl (domain_step func) [] xs \<and>
      set (exclusions func xs) \<subseteq> one_decimal ` set (non_finite_points func xs) \<and>
      (\<forall>x \<in> set (non_finite_points func xs).
         \<exists>r \<in> set (exclusions func xs). r = one_decimal x \<or> within_005 r (one_decimal x)) \<and>
      apart (exclusions func xs)) \<and>
   analyzeDomain func ''sqrt(x)'' = Some XGe0 \<and>
   analyzeDomain func ''1/x'' = Some XNe0 \<and>
   analyzeDomain func ''ln(x)'' = Some XGt0 \<and>
   analyzeDomain func ''sqrt(x+1)'' = Some UnderRootGe0 \<and>
   analyzeDomain func ''log(2x)'' = Some InsideLogGt0 \<and>
   analyzeDomain func ''tan(x)'' = Some XNeHalfPi \<and>
   analyzeDomain func ''cot(x)'' = Some XNeHalfPi \<and>
   analyzeDomain func ''sec(x)'' = Some XNeHalfPi \<and>
   analyzeDomain func ''csc(x)'' = Some XNeNPi \<and>
   analyzeDomain func ''sqrt(x)+ln(x)+1/x'' = Some XGe0 \<and>
   analyzeDomain func ''ln(x)/x'' = Some XGt0 \<and>
   analyzeDomain func ''tan(x)/x'' = Some XNe0 \<and>
   compile_error ''x'' = None \<and> analyzeDomain (compiled ''x'') ''x'' = Some AllRealNumbers \<and>
   compile_error ''0/(x+20)'' = None \<and>
   analyzeDomain (compiled ''0/(x+20)'') ''0/(x+20)'' = Some (XNeList [num (- 20)]) \<and>
   compile_error ''(((x^4)^4)^4)^4'' = None \<and>
   analyzeDomain (compiled ''(((x^4)^4)^4)^4'') ''(((x^4)^4)^4)^4'' = Some MultipleRestrictions"
proof -
  obtain xs where xs: "sweep (num (- 20)) (num 20) (dec 1 1) = Some xs" "length xs = 400"
    using domain_sweep_length by (cases "sweep (num (- 20)) (num 20) (dec 1 1)") auto
  have e: "exclusions func xs = foldl (domain_step func) [] xs"
    by (simp add: exclusions_def domain_fold_exclusions)
  note s = exclusions_rounded[of func xs] exclusions_cover[of func xs] exclusions_apart[of func xs]
  have first: "\<exists>xs. sweep (num (- 20)) (num 20) (dec 1 1) = Some xs \<and> length xs = 400 \<and>
      analyzeDomain func expression
        = Some (domain_answer (toLowerCase expression) (exclusions func xs)) \<and>
      exclusions func xs = foldl (domain_step func) [] xs \<and>
      set (exclusions func xs) \<subseteq> one_decimal ` set (non_finite_points func xs) \<and>
      (\<forall>x \<in> set (non_finite_points func xs).
         \<exists>r \<in> set (exclusions func xs). r = one_decimal x \<or> within_005 r (one_decimal x)) \<and>
      apart (exclusions func xs)"
    using xs analyzeDomain_exclusions[OF xs(1), of func expression] e s by blast
  have t: "analyzeDomain func ''sqrt(x)'' = Some XGe0"
    "analyzeDomain func ''1/x'' = Some XNe0"
    "analyzeDomain func ''ln(x)'' = Some XGt0"
    using analyzeDomain_answer[OF xs(1)] dom_facts by simp_all
  note px = dom_x[THEN conjunct1] dom_x[THEN conjunct2]
    dom_shifted[THEN conjunct1] dom_shifted[THEN conjunct2]
    dom_power[THEN conjunct1] dom_power[THEN conjunct2]
  show ?thesis
    by (intro conjI first t dom_texts px)
qed

text \<open>
  Claim C6 at the function compiled from \<^verbatim>\<open>1/x\<close> with the text \<^verbatim>\<open>2/X\<close>, and at the function
  compiled from \<^verbatim>\<open>0/(x+20)\<close> with its text, for which the exclusions are the one point -20.
\<close>

theorem C6_witness:
  "analyzeDomain (compiled ''1/x'') ''2/X'' = Some XNe0 \<and>
   (\<exists>xs. sweep (num (- 20)) (num 20) (dec 1 1) = Some xs \<and>
      exclusions (compiled ''0/(x+20)'') xs = [num (- 20)] \<and> apart [num (- 20)])"
proof -
  have a: "analyzeDomain (compiled ''1/x'') ''2/X'' = Some XNe0"
    using dom_texts(10)[of "compiled ''1/x''"] .
  obtain xs where xs: "sweep (num (- 20)) (num 20) (dec 1 1) = Some xs"
    and d: "analyzeDomain (compiled ''0/(x+20)'') ''0/(x+20)''
        = Some (domain_answer (toLowerCase ''0/(x+20)'') (exclusions (compiled ''0/(x+20)'') xs))"
    and ap: "apart (exclusions (compiled ''0/(x+20)'') xs)"
    and r: "analyzeDomain (compiled ''0/(x+20)'') ''0/(x+20)'' = Some (XNeList [num (- 20)])"
    using C6_domain[of "compiled ''0/(x+20)''" "''0/(x+20)''"] by blast
  have tf: "domain_answer (toLowerCase ''0/(x+20)'') es =
     (if es = [] then AllRealNumbers else if length es \<le> 5 then XNeList es
      else MultipleRestrictions)" for es
    by (rule shifted_text)
  have "domain_answer (toLowerCase ''0/(x+20)'') (exclusions (compiled ''0/(x+20)'') xs)
      = XNeList [num (- 20)]"
    using d r by simp
  then have "exclusions (compiled ''0/(x+20)'') xs = [num (- 20)]"
    unfolding tf by (simp split: if_splits)
  then show ?thesis using a xs ap by simp
qed


end
